theory Spec2Isabelle
  imports Complex_Main
begin

text \<open>
  A shallow embedding of the two core parts of the trading agent: the instruction decoder
  (\<open>AIInstructionParser\<close>), which turns the text of a language model into validated
  trading instructions, and the cycle orchestrator (\<open>AITradingService\<close>), which gathers
  market data, asks the model, decodes, filters and executes. The definitions follow the
  TypeScript source function by function; the theorems at the end state what the code
  does.
\<close>

section \<open>Strings\<close>

text \<open>
  The decoder works on JavaScript strings, sequences of code units. The model uses
  \<^typ>\<open>string\<close>, whose characters are the code units 0 to 255. White space is what the
  class \<open>\s\<close> and \<open>trim\<close> take in that range: the ASCII white space and the no-break
  space U+00A0. The case mappings are those of the ASCII letters; a character above 127 is
  no letter and no digit, and the case mappings leave it alone. Code units above 255 (the
  further Unicode spaces among them) and the case mappings outside ASCII are not modelled:
  the model is exact on ASCII text and on the no-break space.
\<close>

definition isSpace :: "char \<Rightarrow> bool" where
  \<comment> \<open>the members of the regular expression class \<open>\s\<close> up to U+00FF, which \<open>trim\<close>
      strips too: tab, line feed, vertical tab, form feed, carriage return, space and the
      no-break space\<close>
  "isSpace c =
     (c \<in> set [CHR 0x09, CHR 0x0A, CHR 0x0B, CHR 0x0C, CHR 0x0D, CHR '' '', CHR 0xA0])"

definition isDigit :: "char \<Rightarrow> bool" where
  "isDigit c = (c \<in> set ''0123456789'')"

definition isUpper :: "char \<Rightarrow> bool" where
  "isUpper c = (c \<in> set ''ABCDEFGHIJKLMNOPQRSTUVWXYZ'')"

definition toLowerChar :: "char \<Rightarrow> char" where
  "toLowerChar c =
     (case map_of (zip ''ABCDEFGHIJKLMNOPQRSTUVWXYZ'' ''abcdefghijklmnopqrstuvwxyz'') c of
        Some d \<Rightarrow> d | None \<Rightarrow> c)"

definition toUpperChar :: "char \<Rightarrow> char" where
  "toUpperChar c =
     (case map_of (zip ''abcdefghijklmnopqrstuvwxyz'' ''ABCDEFGHIJKLMNOPQRSTUVWXYZ'') c of
        Some d \<Rightarrow> d | None \<Rightarrow> c)"

definition toLowerCase :: "string \<Rightarrow> string" where
  "toLowerCase s = map toLowerChar s"

definition toUpperCase :: "string \<Rightarrow> string" where
  "toUpperCase s = map toUpperChar s"

definition trim :: "string \<Rightarrow> string" where
  "trim s = rev (dropWhile isSpace (rev (dropWhile isSpace s)))"

fun startsWith :: "string \<Rightarrow> string \<Rightarrow> bool" where
  \<comment> \<open>\<open>startsWith p s\<close>: the text \<open>s\<close> begins with \<open>p\<close>\<close>
  "startsWith [] s = True"
| "startsWith (p # ps) [] = False"
| "startsWith (p # ps) (c # cs) = (if c = p then startsWith ps cs else False)"

fun startsWithCI :: "string \<Rightarrow> string \<Rightarrow> bool" where
  \<comment> \<open>the same under the regular expression flag \<open>i\<close>; \<open>p\<close> is given in upper case\<close>
  "startsWithCI [] s = True"
| "startsWithCI (p # ps) [] = False"
| "startsWithCI (p # ps) (c # cs) = (if toUpperChar c = p then startsWithCI ps cs else False)"

fun includesStr :: "string \<Rightarrow> string \<Rightarrow> bool" where
  \<comment> \<open>\<open>includesStr p s\<close> is \<open>s.includes(p)\<close>\<close>
  "includesStr p [] = (p = [])"
| "includesStr p (c # cs) = (startsWith p (c # cs) \<or> includesStr p cs)"

fun splitOn :: "char \<Rightarrow> string \<Rightarrow> string list" where
  \<comment> \<open>\<open>s.split(d)\<close> for a one-character separator: always at least one piece\<close>
  "splitOn d [] = [] # []"
| "splitOn d (c # cs) =
     (if c = d then [] # splitOn d cs
      else (case splitOn d cs of p # ps \<Rightarrow> (c # p) # ps | [] \<Rightarrow> [c # []]))"

fun joinWith :: "char \<Rightarrow> string list \<Rightarrow> string" where
  "joinWith d [] = []"
| "joinWith d [p] = p"
| "joinWith d (p # q # ps) = p @ d # joinWith d (q # ps)"


section \<open>Numbers\<close>

text \<open>
  A JavaScript number is modelled by its exact value, a \<^typ>\<open>rat\<close>; \<open>undefined\<close> and
  \<open>NaN\<close> are \<open>None\<close> where a function of the source can return them. The rounding of
  \<open>parseFloat\<close> to a double is not modelled.
\<close>

definition digitVal :: "char \<Rightarrow> nat" where
  "digitVal c = (case map_of (zip ''0123456789'' [0, 1, 2, 3, 4, 5, 6, 7, 8, 9]) c of
                   Some d \<Rightarrow> d | None \<Rightarrow> 0)"

definition digitsVal :: "string \<Rightarrow> nat" where
  "digitsVal ds = foldl (\<lambda>a c. 10 * a + digitVal c) 0 ds"

definition parseFloat :: "string \<Rightarrow> rat option" where
  \<comment> \<open>\<open>parseFloat\<close> on the texts the decoder passes to it, which consist of digits, dots
      and minus signs: the longest prefix that is a decimal literal, \<open>None\<close> for \<open>NaN\<close>\<close>
  "parseFloat s =
     (case (case s of c # t \<Rightarrow> if c = CHR ''-'' then (True, t) else (False, s)
                    | [] \<Rightarrow> (False, s)) of
        (neg, r) \<Rightarrow>
          (case (takeWhile isDigit r,
                 (case dropWhile isDigit r of
                    c # t \<Rightarrow> if c = CHR ''.'' then takeWhile isDigit t else []
                  | [] \<Rightarrow> [])) of
             (ip, fp) \<Rightarrow>
               if ip = [] \<and> fp = [] then None
               else Some ((if neg then - 1 else 1) *
                          (of_nat (digitsVal (ip @ fp)) / 10 ^ length fp))))"

definition truthyNum :: "rat option \<Rightarrow> bool" where
  \<comment> \<open>JavaScript truthiness of a number: \<open>undefined\<close> and \<open>0\<close> are falsy\<close>
  "truthyNum x = (case x of None \<Rightarrow> False | Some v \<Rightarrow> v \<noteq> 0)"

definition truthyStr :: "string option \<Rightarrow> bool" where
  \<comment> \<open>\<open>undefined\<close> and the empty string are falsy\<close>
  "truthyStr x = (case x of None \<Rightarrow> False | Some s \<Rightarrow> s \<noteq> [])"

definition ltNum :: "rat option \<Rightarrow> rat \<Rightarrow> bool" where
  \<comment> \<open>\<open>x < c\<close>, false when \<open>x\<close> is \<open>undefined\<close>\<close>
  "ltNum x c = (case x of None \<Rightarrow> False | Some v \<Rightarrow> v < c)"

definition gtNum :: "rat option \<Rightarrow> rat \<Rightarrow> bool" where
  "gtNum x c = (case x of None \<Rightarrow> False | Some v \<Rightarrow> c < v)"

section \<open>Data model of the decoder\<close>

datatype Action = BUY | SELL | CLOSE | HOLD | SET_STOP_LOSS | SET_TAKE_PROFIT

datatype Priority = HIGH | MEDIUM | LOW

text \<open>
  \<open>parseTradeBlock\<close> builds a \<open>Partial<TradingInstruction>\<close> and casts it, so at run time
  every field but the timestamp can be \<open>undefined\<close>: each is an option here.
\<close>

record TradingInstruction =
  action :: "Action option"
  symbol :: "string option"
  quantity :: "rat option"
  price :: "rat option"
  leverage :: "rat option"
  stopLoss :: "rat option"
  takeProfit :: "rat option"
  reason :: "string option"
  confidence :: "rat option"
  priority :: "Priority option"
  riskReward :: "string option"
  maxHoldTime :: "string option"
  timestamp :: int

record ValidationResult =
  isValid :: bool
  errors :: "string list"
  warnings :: "string list"

record ParseResult =
  instructions :: "TradingInstruction list"
  rawResponse :: string
  parseErrors :: "string list"
  validInstructions :: "TradingInstruction list"
  invalidInstructions :: "(TradingInstruction \<times> string list) list"

section \<open>Validation\<close>

definition validSymbols :: "string list" where
  "validSymbols =
     [''BTCUSDT'', ''ETHUSDT'', ''ADAUSDT'', ''DOGEUSDT'', ''BNBUSDT'',
      ''XRPUSDT'', ''SOLUSDT'', ''MATICUSDT'', ''DOTUSDT'', ''AVAXUSDT'',
      ''LTCUSDT'', ''LINKUSDT'', ''UNIUSDT'', ''ATOMUSDT'', ''FILUSDT'',
      ''TRXUSDT'', ''ETCUSDT'', ''XLMUSDT'', ''VETUSDT'', ''ICPUSDT'']"

definition isValidSymbol :: "string \<Rightarrow> bool" where
  "isValidSymbol s = (toUpperCase s \<in> set validSymbols)"

fun rrMatch :: "string \<Rightarrow> string option" where
  \<comment> \<open>the group captured by the first match of \<open>/1:(\d+\.?\d*)/\<close>\<close>
  "rrMatch [] = None"
| "rrMatch (c # cs) =
     (if startsWith ''1:'' (c # cs) \<and> takeWhile isDigit (drop 2 (c # cs)) \<noteq> []
      then Some (takeWhile isDigit (drop 2 (c # cs)) @
                 (case dropWhile isDigit (drop 2 (c # cs)) of
                    d # t \<Rightarrow> if d = CHR ''.'' then d # takeWhile isDigit t else []
                  | [] \<Rightarrow> []))
      else rrMatch cs)"

definition actionErrors :: "TradingInstruction \<Rightarrow> string list" where
  \<comment> \<open>the errors of the block guarded by \<open>action !== 'HOLD' && action !== 'CLOSE'\<close>\<close>
  "actionErrors i =
     (if action i \<noteq> Some HOLD \<and> action i \<noteq> Some CLOSE then
        (if \<not> truthyNum (quantity i) \<and> \<not> truthyNum (price i)
         then [''Either quantity or price must be specified for trading actions''] else []) @
        (if truthyNum (leverage i) \<and> (ltNum (leverage i) 1 \<or> gtNum (leverage i) 50)
         then [''Leverage must be between 1 and 50''] else [])
      else [])"

definition actionWarnings :: "TradingInstruction \<Rightarrow> string list" where
  "actionWarnings i =
     (if action i \<noteq> Some HOLD \<and> action i \<noteq> Some CLOSE \<and>
         (action i = Some BUY \<or> action i = Some SELL) then
        (if \<not> truthyNum (stopLoss i) then [''No stop loss specified - high risk''] else []) @
        (if \<not> truthyNum (takeProfit i)
         then [''No take profit specified - consider setting exit strategy''] else [])
      else [])"

definition riskRewardWarnings :: "TradingInstruction \<Rightarrow> string list" where
  "riskRewardWarnings i =
     (case riskReward i of
        None \<Rightarrow> []
      | Some rr \<Rightarrow>
          if rr = [] then []
          else (case rrMatch rr of
                  None \<Rightarrow> []
                | Some g \<Rightarrow>
                    if ltNum (parseFloat g) (3 / 2)
                    then [''Risk/reward ratio is less than 1:1.5 - consider better opportunities'']
                    else []))"

definition validationErrors :: "TradingInstruction \<Rightarrow> string list" where
  "validationErrors i =
     (if action i = None then [''Action is required''] else []) @
     (if \<not> truthyStr (symbol i) then [''Symbol is required''] else []) @
     actionErrors i @
     (if ltNum (confidence i) 0 \<or> gtNum (confidence i) 100
      then [''Confidence must be between 0 and 100''] else []) @
     (case symbol i of
        None \<Rightarrow> []
      | Some s \<Rightarrow> if s \<noteq> [] \<and> \<not> isValidSymbol s
                  then [''Invalid trading symbol: '' @ s] else [])"

definition validationWarnings :: "TradingInstruction \<Rightarrow> string list" where
  "validationWarnings i =
     (if \<not> truthyStr (reason i) then [''No reason provided for trading decision''] else []) @
     actionWarnings i @
     (if ltNum (confidence i) 50
      then [''Low confidence level - consider skipping this trade''] else []) @
     riskRewardWarnings i"

definition validationResult :: "string list \<Rightarrow> string list \<Rightarrow> ValidationResult" where
  "validationResult errs warns = \<lparr>isValid = (errs = []), errors = errs, warnings = warns\<rparr>"

definition validateInstruction :: "TradingInstruction \<Rightarrow> ValidationResult" where
  "validateInstruction i = validationResult (validationErrors i) (validationWarnings i)"


section \<open>Regular expression scanning\<close>

fun indexWhere :: "(string \<Rightarrow> bool) \<Rightarrow> string \<Rightarrow> nat option" where
  \<comment> \<open>the leftmost position at which a pattern, given as a test of the remaining text,
      matches: how a search for the next match proceeds\<close>
  "indexWhere P [] = None"
| "indexWhere P (c # cs) = (if P (c # cs) then Some 0 else map_option Suc (indexWhere P cs))"

fun lazyLen :: "(string \<Rightarrow> bool) \<Rightarrow> string \<Rightarrow> nat" where
  \<comment> \<open>the length matched by \<open>[\s\S]*?(?=P|$)\<close>: as few characters as possible up to
      the first position where \<open>P\<close> holds, or up to the end of the text\<close>
  "lazyLen P [] = 0"
| "lazyLen P (c # cs) = (if P (c # cs) then 0 else Suc (lazyLen P cs))"

section \<open>Normalization: \<open>cleanResponse\<close>\<close>

fun removeFences :: "string \<Rightarrow> string" where
  \<comment> \<open>\<open>.replace(/```[\s\S]*?```/g, '')\<close>; an opening fence that is never closed stays,
      and then no later position matches either\<close>
  "removeFences [] = []"
| "removeFences (c # cs) =
     (if startsWith ''```'' (c # cs) then
        (case indexWhere (startsWith ''```'') (drop 3 (c # cs)) of
           Some k \<Rightarrow> removeFences (drop (3 + k + 3) (c # cs))
         | None \<Rightarrow> c # cs)
      else c # removeFences cs)"

fun removeBold :: "string \<Rightarrow> string" where
  \<comment> \<open>\<open>.replace(/\*\*/g, '')\<close>\<close>
  "removeBold (a # b # cs) =
     (if a = CHR ''*'' \<and> b = CHR ''*'' then removeBold cs else a # removeBold (b # cs))"
| "removeBold cs = cs"

definition removeItalic :: "string \<Rightarrow> string" where
  \<comment> \<open>\<open>.replace(/\*/g, '')\<close>\<close>
  "removeItalic s = filter (\<lambda>c. c \<noteq> CHR ''*'') s"

definition hashRun :: "string \<Rightarrow> nat" where
  "hashRun s = length (takeWhile (\<lambda>c. c = CHR ''#'') s)"

definition headingAt :: "string \<Rightarrow> bool" where
  \<comment> \<open>\<open>/#{1,6}\s/\<close> matches here: one to six hashes and then a white space character
      (of a longer run only the last six can match, from a later position)\<close>
  "headingAt s = (1 \<le> hashRun s \<and> hashRun s \<le> 6 \<and>
                  (case drop (hashRun s) s of d # _ \<Rightarrow> isSpace d | [] \<Rightarrow> False))"

fun removeHeadings :: "string \<Rightarrow> string" where
  \<comment> \<open>\<open>.replace(/#{1,6}\s/g, '')\<close>\<close>
  "removeHeadings [] = []"
| "removeHeadings (c # cs) =
     (if headingAt (c # cs) then removeHeadings (drop (hashRun (c # cs) + 1) (c # cs))
      else c # removeHeadings cs)"

definition cleanResponse :: "string \<Rightarrow> string" where
  "cleanResponse response = trim (removeHeadings (removeItalic (removeBold (removeFences response))))"

section \<open>Block extraction: \<open>extractTradeBlocks\<close>\<close>

definition markerAt :: "string \<Rightarrow> bool" where
  \<comment> \<open>\<open>TRADE_DECISION:\<close> under the flag \<open>i\<close>\<close>
  "markerAt s = startsWithCI ''TRADE_DECISION:'' s"

definition blockEndAt :: "string \<Rightarrow> bool" where
  \<comment> \<open>the lookahead \<open>(?=TRADE_DECISION:|---|$)\<close>, the end of the text apart\<close>
  "blockEndAt s = (markerAt s \<or> startsWith ''---'' s)"

definition matchLen :: "string \<Rightarrow> nat" where
  \<comment> \<open>the length of the match of \<open>/TRADE_DECISION:\s*([\s\S]*?)(?=TRADE_DECISION:|---|$)/\<close>
      that starts at the head of the text: the marker, all white space after it, and the
      lazy body\<close>
  "matchLen m = 15 + length (takeWhile isSpace (drop 15 m)) +
                lazyLen blockEndAt (dropWhile isSpace (drop 15 m))"

fun tradeMatches :: "string \<Rightarrow> string list" where
  \<comment> \<open>\<open>response.match(pattern)\<close> with the flag \<open>g\<close>: every match, each search starting
      where the match before ended (one character further after an empty match, which
      these patterns never produce); the empty list stands for \<open>null\<close>\<close>
  "tradeMatches [] = []"
| "tradeMatches (c # cs) =
     (case indexWhere markerAt (c # cs) of
        None \<Rightarrow> []
      | Some i \<Rightarrow> take (matchLen (drop i (c # cs))) (drop i (c # cs)) #
                  tradeMatches (drop (i + max 1 (matchLen (drop i (c # cs)))) (c # cs)))"

definition isSep :: "char \<Rightarrow> bool" where
  \<comment> \<open>the class \<open>[\s:]\<close>\<close>
  "isSep c = (isSpace c \<or> c = CHR '':'')"

definition keywordLen :: "string \<Rightarrow> nat option" where
  \<comment> \<open>which of \<open>TRADE|DECISION|ACTION\<close> the text starts with, under the flag \<open>i\<close>\<close>
  "keywordLen s =
     (if startsWithCI ''TRADE'' s then Some 5
      else if startsWithCI ''DECISION'' s then Some 8
      else if startsWithCI ''ACTION'' s then Some 6
      else None)"

definition looseAt :: "string \<Rightarrow> bool" where
  \<comment> \<open>\<open>(?:TRADE|DECISION|ACTION)[\s:]\<close> matches here: the start of a looser match, and
      its lookahead\<close>
  "looseAt s =
     (case keywordLen s of
        None \<Rightarrow> False
      | Some k \<Rightarrow> (case drop k s of d # _ \<Rightarrow> isSep d | [] \<Rightarrow> False))"

definition looseLen :: "string \<Rightarrow> nat" where
  \<comment> \<open>the length of the looser match that starts at the head of the text\<close>
  "looseLen m =
     (case keywordLen m of
        None \<Rightarrow> 0
      | Some k \<Rightarrow> k + length (takeWhile isSep (drop k m)) +
                  lazyLen looseAt (dropWhile isSep (drop k m)))"

fun looseMatches :: "string \<Rightarrow> string list" where
  "looseMatches [] = []"
| "looseMatches (c # cs) =
     (case indexWhere looseAt (c # cs) of
        None \<Rightarrow> []
      | Some i \<Rightarrow> take (looseLen (drop i (c # cs))) (drop i (c # cs)) #
                  looseMatches (drop (i + max 1 (looseLen (drop i (c # cs)))) (c # cs)))"

definition stripMarker :: "string \<Rightarrow> string" where
  \<comment> \<open>\<open>match.replace(/^TRADE_DECISION:\s*/i, '')\<close>\<close>
  "stripMarker m = (if markerAt m then dropWhile isSpace (drop 15 m) else m)"

definition blocksOf :: "string \<Rightarrow> string list \<Rightarrow> string list" where
  \<comment> \<open>what \<open>extractTradeBlocks\<close> does with the matches of the first pattern\<close>
  "blocksOf response matches =
     (if matches = [] then looseMatches response
      else map (\<lambda>m. trim (stripMarker m)) matches)"

definition extractTradeBlocks :: "string \<Rightarrow> string list" where
  "extractTradeBlocks response = blocksOf response (tradeMatches response)"


section \<open>Field parsing: \<open>parseTradeBlock\<close>\<close>

definition parseAction :: "string \<Rightarrow> Action option" where
  "parseAction v =
     map_of [(''BUY'', BUY), (''LONG'', BUY), (''SELL'', SELL), (''SHORT'', SELL),
             (''CLOSE'', CLOSE), (''EXIT'', CLOSE), (''HOLD'', HOLD), (''WAIT'', HOLD),
             (''SET_STOP_LOSS'', SET_STOP_LOSS), (''SET_TAKE_PROFIT'', SET_TAKE_PROFIT)]
       (trim (toUpperCase v))"

definition stripPrefix :: "string \<Rightarrow> string" where
  \<comment> \<open>\<open>.replace(/^(FUTURES?|SPOT)_?/i, '')\<close>\<close>
  "stripPrefix s =
     (case (if startsWithCI ''FUTURES'' s then Some 7
            else if startsWithCI ''FUTURE'' s then Some 6
            else if startsWithCI ''SPOT'' s then Some 4
            else None) of
        None \<Rightarrow> s
      | Some k \<Rightarrow> (if startsWith ''_'' (drop k s) then drop (k + 1) s else drop k s))"

definition addQuoteAsset :: "string \<Rightarrow> string" where
  "addQuoteAsset s =
     (if \<not> includesStr ''USDT'' s \<and> \<not> includesStr ''BUSD'' s then s @ ''USDT'' else s)"

definition parseSymbol :: "string \<Rightarrow> string" where
  "parseSymbol v = stripPrefix (addQuoteAsset (trim (toUpperCase v)))"

definition parseNumber :: "string \<Rightarrow> rat option" where
  \<comment> \<open>\<open>value.replace(/[^\d.-]/g, '')\<close>, then \<open>parseFloat\<close>, \<open>NaN\<close> becoming
      \<open>undefined\<close>\<close>
  "parseNumber v = parseFloat (filter (\<lambda>c. isDigit c \<or> c = CHR ''.'' \<or> c = CHR ''-'') v)"

definition parsePrice :: "string \<Rightarrow> rat option" where
  "parsePrice v = (if includesStr ''MARKET'' (toUpperCase v) then None else parseNumber v)"

definition priorityOf :: "string \<Rightarrow> Priority" where
  "priorityOf p =
     (if p \<in> set [''HIGH'', ''URGENT'', ''CRITICAL''] then HIGH
      else if p \<in> set [''MEDIUM'', ''NORMAL'', ''MODERATE''] then MEDIUM
      else LOW)"

definition parsePriority :: "string \<Rightarrow> Priority" where
  "parsePriority v = priorityOf (trim (toUpperCase v))"

definition orZero :: "rat option \<Rightarrow> rat" where
  \<comment> \<open>\<open>x || 0\<close>\<close>
  "orZero x = (case x of None \<Rightarrow> 0 | Some v \<Rightarrow> v)"

definition setField :: "string \<Rightarrow> string \<Rightarrow> TradingInstruction \<Rightarrow> TradingInstruction" where
  \<comment> \<open>the \<open>switch (lowerKey)\<close>; an unknown key changes nothing\<close>
  "setField lowerKey v ins =
     (if lowerKey = ''action'' then ins\<lparr>action := parseAction v\<rparr>
      else if lowerKey = ''symbol'' then ins\<lparr>symbol := Some (parseSymbol v)\<rparr>
      else if lowerKey = ''quantity'' then ins\<lparr>quantity := parseNumber v\<rparr>
      else if lowerKey = ''leverage'' then ins\<lparr>leverage := parseNumber v\<rparr>
      else if lowerKey = ''entry price'' \<or> lowerKey = ''price''
        then ins\<lparr>price := parsePrice v\<rparr>
      else if lowerKey = ''stop loss'' \<or> lowerKey = ''stoploss''
        then ins\<lparr>stopLoss := parseNumber v\<rparr>
      else if lowerKey = ''take profit'' \<or> lowerKey = ''takeprofit''
        then ins\<lparr>takeProfit := parseNumber v\<rparr>
      else if lowerKey = ''confidence'' then ins\<lparr>confidence := Some (orZero (parseNumber v))\<rparr>
      else if lowerKey = ''priority'' then ins\<lparr>priority := Some (parsePriority v)\<rparr>
      else if lowerKey = ''reason'' then ins\<lparr>reason := Some v\<rparr>
      else if lowerKey = ''risk reward'' \<or> lowerKey = ''riskreward''
        then ins\<lparr>riskReward := Some v\<rparr>
      else if lowerKey = ''max hold time'' \<or> lowerKey = ''maxholdtime''
        then ins\<lparr>maxHoldTime := Some v\<rparr>
      else ins)"

definition blockLines :: "string \<Rightarrow> string list" where
  \<comment> \<open>\<open>block.split('\n').map(line => line.trim()).filter(line => line.length > 0)\<close>\<close>
  "blockLines block = filter (\<lambda>l. l \<noteq> []) (map trim (splitOn CHR 0x0A block))"

fun parseLines :: "string list \<Rightarrow> TradingInstruction \<Rightarrow> TradingInstruction" where
  \<comment> \<open>the loop over the lines: a line containing \<open>---\<close> ends it, a line without a colon
      is skipped, the key is the text before the first colon\<close>
  "parseLines [] ins = ins"
| "parseLines (l # ls) ins =
     (if includesStr ''---'' l then ins
      else (case splitOn CHR '':'' l of
              k # v # vs \<Rightarrow>
                parseLines ls
                  (setField (trim (toLowerCase k)) (trim (joinWith CHR '':'' (v # vs))) ins)
            | _ \<Rightarrow> parseLines ls ins))"

definition emptyInstruction :: "int \<Rightarrow> TradingInstruction" where
  "emptyInstruction ts =
     \<lparr>action = None, symbol = None, quantity = None, price = None, leverage = None,
      stopLoss = None, takeProfit = None, reason = None, confidence = None,
      priority = None, riskReward = None, maxHoldTime = None, timestamp = ts\<rparr>"

definition holdInstruction :: "string \<Rightarrow> string \<Rightarrow> rat \<Rightarrow> Priority \<Rightarrow> int \<Rightarrow> TradingInstruction" where
  \<comment> \<open>the object literal of a HOLD instruction: six fields, the others absent\<close>
  "holdInstruction sy rsn conf prio ts =
     (emptyInstruction ts)\<lparr>action := Some HOLD, symbol := Some sy, reason := Some rsn,
                           confidence := Some conf, priority := Some prio\<rparr>"

definition finishBlock :: "TradingInstruction \<Rightarrow> int \<Rightarrow> TradingInstruction option" where
  \<comment> \<open>the end of \<open>parseTradeBlock\<close>, after the loop: the required fields, then the
      defaults of a HOLD\<close>
  "finishBlock ins ts =
     (if action ins = None \<or> \<not> truthyStr (symbol ins) then None
      else if action ins = Some HOLD then
        Some (holdInstruction
                (case symbol ins of Some s \<Rightarrow> if s = [] then ''ALL'' else s | None \<Rightarrow> ''ALL'')
                (case reason ins of
                   Some r \<Rightarrow> if r = [] then ''AI recommends holding current positions'' else r
                 | None \<Rightarrow> ''AI recommends holding current positions'')
                (case confidence ins of Some c \<Rightarrow> if c = 0 then 50 else c | None \<Rightarrow> 50)
                (case priority ins of Some p \<Rightarrow> p | None \<Rightarrow> LOW)
                ts)
      else Some ins)"

definition parseTradeBlock :: "string \<Rightarrow> int \<Rightarrow> TradingInstruction option" where
  "parseTradeBlock block ts = finishBlock (parseLines (blockLines block) (emptyInstruction ts)) ts"

section \<open>Fallback: \<open>parseFallbackResponse\<close>\<close>

definition symbolHere :: "string \<Rightarrow> string option" where
  \<comment> \<open>\<open>[A-Z]{2,10}(?:USDT|BUSD)\<close> at the head of the text: the greedy quantifier tries
      ten letters first and gives back one at a time\<close>
  "symbolHere s =
     (case filter (\<lambda>n. n \<le> length s \<and> list_all isUpper (take n s) \<and>
                        (startsWith ''USDT'' (drop n s) \<or> startsWith ''BUSD'' (drop n s)))
                  [10, 9, 8, 7, 6, 5, 4, 3, 2] of
        n # _ \<Rightarrow> Some (take (n + 4) s)
      | [] \<Rightarrow> None)"

fun symbolMatch :: "string \<Rightarrow> string option" where
  \<comment> \<open>\<open>response.match(/([A-Z]{2,10}(?:USDT|BUSD))/)\<close>: the leftmost match\<close>
  "symbolMatch [] = None"
| "symbolMatch (c # cs) =
     (case symbolHere (c # cs) of Some m \<Rightarrow> Some m | None \<Rightarrow> symbolMatch cs)"

definition fallbackFrom :: "string \<Rightarrow> string \<Rightarrow> int \<Rightarrow> TradingInstruction option" where
  \<comment> \<open>the body of \<open>parseFallbackResponse\<close>, given \<open>lowerResponse\<close>\<close>
  "fallbackFrom response lowerResponse ts =
     (if includesStr ''hold'' lowerResponse \<or> includesStr ''wait'' lowerResponse \<or>
         includesStr ''no trade'' lowerResponse
      then Some (holdInstruction ''ALL''
                   ''AI recommends holding based on current market conditions'' 50 LOW ts)
      else
        (case (if includesStr ''buy'' lowerResponse \<or> includesStr ''long'' lowerResponse
               then Some BUY
               else if includesStr ''sell'' lowerResponse \<or> includesStr ''short'' lowerResponse
               then Some SELL
               else None,
               symbolMatch response) of
           (Some a, Some sy) \<Rightarrow>
             Some ((emptyInstruction ts)\<lparr>action := Some a, symbol := Some sy,
                     reason := Some ''Parsed from unstructured AI response'',
                     confidence := Some 30, priority := Some LOW\<rparr>)
         | _ \<Rightarrow> None))"

definition parseFallbackResponse :: "string \<Rightarrow> int \<Rightarrow> TradingInstruction option" where
  "parseFallbackResponse response ts = fallbackFrom response (toLowerCase response) ts"

section \<open>Decoding: \<open>parseAIResponse\<close>\<close>

text \<open>
  \<open>Date.now()\<close> is read once, at entry; the model takes the value as the argument
  \<open>ts\<close>. No operation of the body can throw on a string (the string methods and the
  regular expression searches are total, and the scanning loops above are terminating
  recursions), so the two \<open>catch\<close> branches of the source have no counterpart here.
  Logging is not modelled. The body is split into functions that receive the values of
  the local constants of the source (\<open>cleanedResponse\<close>, \<open>tradeBlocks\<close>, the
  \<open>validation\<close> of an instruction) as arguments, so that each is computed once, as
  in the source.
\<close>

definition parseBlocks :: "string list \<Rightarrow> int \<Rightarrow> TradingInstruction list" where
  \<comment> \<open>the loop over the blocks: those that yield \<open>null\<close> leave no trace\<close>
  "parseBlocks blocks ts = List.map_filter (\<lambda>b. parseTradeBlock b ts) blocks"

definition decodeBlocks ::
  "string \<Rightarrow> string list \<Rightarrow> int \<Rightarrow> string list \<times> TradingInstruction list" where
  \<comment> \<open>the parse errors and the instructions, from the normalized text and its blocks\<close>
  "decodeBlocks cleanedResponse tradeBlocks ts =
     (if tradeBlocks = []
      then ([''No TRADE_DECISION blocks found in AI response''],
            (case parseFallbackResponse cleanedResponse ts of Some i \<Rightarrow> [i] | None \<Rightarrow> []))
      else ([], parseBlocks tradeBlocks ts))"

definition addValidated ::
  "TradingInstruction \<Rightarrow> ValidationResult \<Rightarrow>
   TradingInstruction list \<times> (TradingInstruction \<times> string list) list \<Rightarrow>
   TradingInstruction list \<times> (TradingInstruction \<times> string list) list" where
  "addValidated i validation rest =
     (if isValid validation then (i # fst rest, snd rest)
      else (fst rest, (i, errors validation) # snd rest))"

fun validateAll ::
  "TradingInstruction list \<Rightarrow>
   TradingInstruction list \<times> (TradingInstruction \<times> string list) list" where
  \<comment> \<open>the loop that validates every instruction once and sorts it into the valid or the
      invalid ones, in order\<close>
  "validateAll [] = ([], [])"
| "validateAll (i # rest) = addValidated i (validateInstruction i) (validateAll rest)"

definition makeParseResult ::
  "string \<Rightarrow> string list \<times> TradingInstruction list \<Rightarrow>
   TradingInstruction list \<times> (TradingInstruction \<times> string list) list \<Rightarrow> ParseResult" where
  "makeParseResult response decoded validated =
     \<lparr>instructions = snd decoded,
      rawResponse = response,
      parseErrors = fst decoded,
      validInstructions = fst validated,
      invalidInstructions = snd validated\<rparr>"

definition decodeCleaned :: "string \<Rightarrow> int \<Rightarrow> string list \<times> TradingInstruction list" where
  "decodeCleaned cleanedResponse ts =
     decodeBlocks cleanedResponse (extractTradeBlocks cleanedResponse) ts"

definition validatedResult :: "string \<Rightarrow> string list \<times> TradingInstruction list \<Rightarrow> ParseResult" where
  "validatedResult response decoded = makeParseResult response decoded (validateAll (snd decoded))"

definition parseAIResponse :: "string \<Rightarrow> int \<Rightarrow> ParseResult" where
  "parseAIResponse response ts =
     validatedResult response (decodeCleaned (cleanResponse response) ts)"


section \<open>Data model of the orchestrator\<close>

text \<open>
  Field names that two interfaces of the source share carry a suffix in all but one of
  them (\<open>_e\<close> execution result, \<open>_c\<close> cycle result, \<open>_d\<close> symbol data, \<open>_m\<close> market
  data, \<open>_q\<close> risk query, \<open>_p\<close> position).
\<close>

record AccountInfo =
  \<comment> \<open>what the exchange returns: decimal numbers as text\<close>
  availableBalance :: string
  totalWalletBalance :: string
  totalUnrealizedProfit :: string
  totalMarginBalance :: string
  totalPositionInitialMargin :: string

record Position =
  symbol_p :: string
  positionAmt :: string
  unRealizedProfit :: string

record Ticker =
  lastPrice :: string
  priceChangePercent :: string
  volume :: string

type_synonym Kline = "string list"

record TechnicalIndicators =
  rsi :: rat
  macd :: rat
  ema20 :: rat
  ema50 :: rat
  support :: rat
  resistance :: rat

record SymbolData =
  symbol_d :: string
  currentPrice :: "rat option"
  priceChange24h :: "rat option"
  volume24h :: "rat option"
  volatility :: "rat option"
  technicalIndicators :: TechnicalIndicators

record AccountSummary =
  availableBalance_m :: "rat option"
  totalWalletBalance_m :: "rat option"
  totalUnrealizedProfit_m :: "rat option"
  totalMarginBalance_m :: "rat option"
  totalPositionInitialMargin_m :: "rat option"

datatype VolatilityLevel = VolLOW | VolMEDIUM | VolHIGH

record TrendAnalysis =
  overallSentiment :: string
  marketPhase :: string
  majorSupport :: rat
  majorResistance :: rat
  volatilityLevel :: VolatilityLevel

record RiskMetrics =
  portfolioExposure :: rat
  maxDrawdown :: rat
  sharpeRatio :: rat
  winRate :: rat
  averageRiskReward :: rat
  fearGreedIndex :: "rat option"

record MarketData =
  timestamp_m :: int
  symbols :: "SymbolData list"
  accountInfo :: AccountSummary
  currentPositions :: "Position list"
  marketTrends :: TrendAnalysis
  riskMetrics :: RiskMetrics

record ExecutionResult =
  success :: bool
  instruction :: TradingInstruction
  binanceOrderId :: "int option"
  executedPrice :: "rat option"
  executedQuantity :: "rat option"
  error :: "string option"
  timestamp_e :: int

record TradingCycleResult =
  timestamp_c :: int
  aiProvider :: string
  prompt :: string
  aiResponse :: string
  instructions_c :: "TradingInstruction list"
  executionResults :: "ExecutionResult list"
  success_c :: bool
  error_c :: "string option"
  cycleId :: string
  duration :: int

record RiskQuery =
  \<comment> \<open>the object handed to \<open>assessRisk\<close>\<close>
  symbol_q :: "string option"
  side :: "Action option"
  quantity_q :: rat
  leverage_q :: rat
  entryPrice :: "rat option"

record RiskAssessment =
  canExecute :: bool
  reasons :: "string list"

record AITradingConfig =
  aiProviderName :: string
  renderPrompt :: "MarketData \<Rightarrow> nat \<Rightarrow> string"
    \<comment> \<open>\<open>buildPrompt\<close> with the configured template, applied to the market data and the
        day's trade count; the formatting of numbers as text is not modelled\<close>
  formatTradeMessage :: "TradingInstruction \<Rightarrow> ExecutionResult \<Rightarrow> string"
    \<comment> \<open>the text of the notification of an executed trade\<close>
  tradingPairs :: "string list"
  maxPositions :: nat
  maxDailyTrades :: int
  maxPortfolioExposure :: rat
  maxPositionSize :: rat
  minConfidenceThreshold :: rat
  technicalIndicatorsEnabled :: bool
  sentimentAnalysisEnabled :: bool
  telegramEnabled :: bool
  dryRun :: bool
  intervalSeconds :: nat

section \<open>Collaborators\<close>

text \<open>
  Every call that the orchestrator makes to a collaborator is recorded, in order, in the
  list \<open>calls\<close> of the state. A collaborator is a function of the calls made so far and
  of its arguments; it answers \<open>Inl message\<close> when the call fails (a rejected promise, a
  thrown error) and \<open>Inr value\<close> otherwise. The clock and the random part of the cycle
  identifier are read the same way, as functions of the calls made so far. Logging is not
  modelled.
\<close>

datatype Call =
    GetAccountInfo
  | GetPositions
  | Get24hrTicker string
  | GetKlines string
  | RequestDecision string
  | AssessRisk RiskQuery
  | ExecuteInstruction TradingInstruction
  | SendMessage string

record Collaborators =
  getAccountInfo :: "Call list \<Rightarrow> string + AccountInfo"
  getPositions :: "Call list \<Rightarrow> string + Position list"
  get24hrTicker :: "Call list \<Rightarrow> string \<Rightarrow> string + Ticker"
  getKlines :: "Call list \<Rightarrow> string \<Rightarrow> string + Kline list"
  requestDecision :: "Call list \<Rightarrow> string \<Rightarrow> string + string"
    \<comment> \<open>the \<open>content\<close> of the model's response\<close>
  assessRisk :: "Call list \<Rightarrow> RiskQuery \<Rightarrow> string + RiskAssessment"
  executorRun :: "Call list \<Rightarrow> TradingInstruction \<Rightarrow> string + ExecutionResult"
    \<comment> \<open>\<open>tradingExecutor.executeInstruction\<close>\<close>
  sendMessage :: "Call list \<Rightarrow> string \<Rightarrow> string + unit"
  dateNow :: "Call list \<Rightarrow> int"
  toDateString :: "Call list \<Rightarrow> string"
    \<comment> \<open>\<open>new Date().toDateString()\<close>\<close>
  newCycleId :: "Call list \<Rightarrow> string"

record ServiceState =
  isRunning :: bool
  currentCycle :: nat
  totalExecutedTrades :: nat
  dailyTradeCount :: nat
  lastResetDate :: string
  calls :: "Call list"

section \<open>Gathering market data\<close>

definition neutralIndicators :: TechnicalIndicators where
  "neutralIndicators = \<lparr>rsi = 50, macd = 0, ema20 = 0, ema50 = 0, support = 0, resistance = 0\<rparr>"

definition calculatedIndicators :: "Kline list \<Rightarrow> TechnicalIndicators" where
  \<comment> \<open>\<open>calculateRSI\<close>, \<open>calculateMACD\<close>, \<open>calculateEMA\<close>, \<open>calculateSupport\<close> and
      \<open>calculateResistance\<close> are placeholders that return constants\<close>
  "calculatedIndicators klines =
     \<lparr>rsi = 50, macd = 0, ema20 = 0, ema50 = 0, support = 0, resistance = 0\<rparr>"

definition getTechnicalIndicators ::
  "AITradingConfig \<Rightarrow> Collaborators \<Rightarrow> string \<Rightarrow> Call list \<Rightarrow> TechnicalIndicators \<times> Call list" where
  "getTechnicalIndicators c e sy cs =
     (if \<not> technicalIndicatorsEnabled c then (neutralIndicators, cs)
      else (case getKlines e cs sy of
              Inr klines \<Rightarrow> (calculatedIndicators klines, cs @ [GetKlines sy])
            | Inl m \<Rightarrow> (neutralIndicators, cs @ [GetKlines sy])))"

definition makeSymbolData :: "string \<Rightarrow> Ticker \<Rightarrow> TechnicalIndicators \<Rightarrow> SymbolData" where
  \<comment> \<open>the exchange sends plain decimal texts, on which \<open>parseFloat\<close> is as modelled\<close>
  "makeSymbolData sy ticker ind =
     \<lparr>symbol_d = sy,
      currentPrice = parseFloat (lastPrice ticker),
      priceChange24h = parseFloat (priceChangePercent ticker),
      volume24h = parseFloat (volume ticker),
      volatility = map_option abs (parseFloat (priceChangePercent ticker)),
      technicalIndicators = ind\<rparr>"

fun getSymbolDataFrom ::
  "AITradingConfig \<Rightarrow> Collaborators \<Rightarrow> string list \<Rightarrow> SymbolData list \<Rightarrow> Call list \<Rightarrow>
     SymbolData list \<times> Call list" where
  \<comment> \<open>the loop of \<open>getSymbolData\<close> over the trading pairs: the ticker and the indicators
      of a pair are both requested; when the ticker fails the \<open>catch\<close> of the loop body
      logs it and the pair is left out\<close>
  "getSymbolDataFrom c e [] acc cs = (acc, cs)"
| "getSymbolDataFrom c e (sy # rest) acc cs =
     (case getTechnicalIndicators c e sy (cs @ [Get24hrTicker sy]) of
        (ind, cs') \<Rightarrow>
          (case get24hrTicker e cs sy of
             Inr ticker \<Rightarrow> getSymbolDataFrom c e rest (acc @ [makeSymbolData sy ticker ind]) cs'
           | Inl m \<Rightarrow> getSymbolDataFrom c e rest acc cs'))"

definition getSymbolData ::
  "AITradingConfig \<Rightarrow> Collaborators \<Rightarrow> Call list \<Rightarrow> SymbolData list \<times> Call list" where
  "getSymbolData c e cs = getSymbolDataFrom c e (tradingPairs c) [] cs"

definition analyzeTrends :: "SymbolData list \<Rightarrow> TrendAnalysis" where
  "analyzeTrends sds =
     \<lparr>overallSentiment = ''Neutral'', marketPhase = ''Consolidation'', majorSupport = 0,
      majorResistance = 0, volatilityLevel = VolMEDIUM\<rparr>"

definition calculateRiskMetrics :: "Position list \<Rightarrow> AccountInfo \<Rightarrow> RiskMetrics" where
  "calculateRiskMetrics ps a =
     \<lparr>portfolioExposure = 0, maxDrawdown = 0, sharpeRatio = 0, winRate = 0,
      averageRiskReward = 0, fearGreedIndex = None\<rparr>"

definition accountSummary :: "AccountInfo \<Rightarrow> AccountSummary" where
  "accountSummary a =
     \<lparr>availableBalance_m = parseFloat (availableBalance a),
      totalWalletBalance_m = parseFloat (totalWalletBalance a),
      totalUnrealizedProfit_m = parseFloat (totalUnrealizedProfit a),
      totalMarginBalance_m = parseFloat (totalMarginBalance a),
      totalPositionInitialMargin_m = parseFloat (totalPositionInitialMargin a)\<rparr>"

definition gatherMarketData ::
  "AITradingConfig \<Rightarrow> Collaborators \<Rightarrow> Call list \<Rightarrow> (string + MarketData) \<times> Call list" where
  \<comment> \<open>\<open>Promise.all\<close> starts the reads of the account and of the positions before it waits:
      both calls are made, and a failure of either rejects the whole; the model reports
      the account's failure when both fail\<close>
  "gatherMarketData c e cs =
     (case getAccountInfo e cs of
        Inl m \<Rightarrow> (Inl m, cs @ [GetAccountInfo, GetPositions])
      | Inr a \<Rightarrow>
          (case getPositions e (cs @ [GetAccountInfo]) of
             Inl m \<Rightarrow> (Inl m, cs @ [GetAccountInfo, GetPositions])
           | Inr ps \<Rightarrow>
               (case getSymbolData c e (cs @ [GetAccountInfo, GetPositions]) of
                  (sds, cs') \<Rightarrow>
                    (Inr \<lparr>timestamp_m = dateNow e cs',
                          symbols = sds,
                          accountInfo = accountSummary a,
                          currentPositions =
                            filter (\<lambda>p. parseFloat (positionAmt p) \<noteq> Some 0) ps,
                          marketTrends = analyzeTrends sds,
                          riskMetrics = calculateRiskMetrics ps a\<rparr>,
                     cs'))))"

section \<open>Filtering and executing instructions\<close>

definition filterInstructions :: "AITradingConfig \<Rightarrow> ParseResult \<Rightarrow> TradingInstruction list" where
  "filterInstructions c pr =
     filter (\<lambda>i. \<not> ltNum (confidence i) (minConfidenceThreshold c) \<and>
                 (case symbol i of Some s \<Rightarrow> s \<in> set (tradingPairs c) | None \<Rightarrow> False) \<and>
                 action i \<noteq> Some HOLD)
            (validInstructions pr)"

definition riskQuery :: "TradingInstruction \<Rightarrow> RiskQuery" where
  "riskQuery i =
     \<lparr>symbol_q = symbol i,
      side = action i,
      quantity_q = orZero (quantity i),
      leverage_q = (case leverage i of Some l \<Rightarrow> if l = 0 then 1 else l | None \<Rightarrow> 1),
      entryPrice = price i\<rparr>"

definition failedExecution :: "TradingInstruction \<Rightarrow> string \<Rightarrow> int \<Rightarrow> ExecutionResult" where
  \<comment> \<open>the object built by the \<open>catch\<close> of \<open>executeInstruction\<close>\<close>
  "failedExecution i m t =
     \<lparr>success = False, instruction = i, binanceOrderId = None, executedPrice = None,
      executedQuantity = None, error = Some m, timestamp_e = t\<rparr>"

fun joinStrings :: "string \<Rightarrow> string list \<Rightarrow> string" where
  "joinStrings d [] = []"
| "joinStrings d [p] = p"
| "joinStrings d (p # q # ps) = p @ d @ joinStrings d (q # ps)"

definition executeInstruction ::
  "AITradingConfig \<Rightarrow> Collaborators \<Rightarrow> TradingInstruction \<Rightarrow> Call list \<Rightarrow>
     ExecutionResult \<times> Call list" where
  \<comment> \<open>every failure inside the \<open>try\<close> (a failing risk check, a rejected instruction, a
      failing executor, a failing notification) ends in the \<open>catch\<close>\<close>
  "executeInstruction c e i cs =
     (case assessRisk e cs (riskQuery i) of
        Inl m \<Rightarrow>
          (failedExecution i m (dateNow e (cs @ [AssessRisk (riskQuery i)])),
           cs @ [AssessRisk (riskQuery i)])
      | Inr ra \<Rightarrow>
          if \<not> canExecute ra then
            (failedExecution i (''Risk check failed: '' @ joinStrings '', '' (reasons ra))
               (dateNow e (cs @ [AssessRisk (riskQuery i)])),
             cs @ [AssessRisk (riskQuery i)])
          else
            (case executorRun e (cs @ [AssessRisk (riskQuery i)]) i of
               Inl m \<Rightarrow>
                 (failedExecution i m
                    (dateNow e (cs @ [AssessRisk (riskQuery i), ExecuteInstruction i])),
                  cs @ [AssessRisk (riskQuery i), ExecuteInstruction i])
             | Inr res \<Rightarrow>
                 if telegramEnabled c \<and> success res then
                   (case sendMessage e (cs @ [AssessRisk (riskQuery i), ExecuteInstruction i])
                           (formatTradeMessage c i res) of
                      Inl m \<Rightarrow>
                        (failedExecution i m
                           (dateNow e (cs @ [AssessRisk (riskQuery i), ExecuteInstruction i,
                                             SendMessage (formatTradeMessage c i res)])),
                         cs @ [AssessRisk (riskQuery i), ExecuteInstruction i,
                               SendMessage (formatTradeMessage c i res)])
                    | Inr u \<Rightarrow>
                        (res, cs @ [AssessRisk (riskQuery i), ExecuteInstruction i,
                                    SendMessage (formatTradeMessage c i res)]))
                 else (res, cs @ [AssessRisk (riskQuery i), ExecuteInstruction i])))"

definition countExecution :: "ExecutionResult \<Rightarrow> ServiceState \<Rightarrow> ServiceState" where
  \<comment> \<open>a successful execution counts as a trade, of the run and of the day\<close>
  "countExecution r st =
     (if success r
      then st\<lparr>totalExecutedTrades := totalExecutedTrades st + 1,
              dailyTradeCount := dailyTradeCount st + 1\<rparr>
      else st)"

fun executeInstructions ::
  "AITradingConfig \<Rightarrow> Collaborators \<Rightarrow> TradingInstruction list \<Rightarrow> ServiceState \<Rightarrow>
     ExecutionResult list \<times> ServiceState" where
  \<comment> \<open>the \<open>for\<close> loop of the cycle over the filtered instructions, one after the other;
      \<open>executeInstruction\<close> cannot throw, so the \<open>catch\<close> of the loop body is never
      entered\<close>
  "executeInstructions c e [] st = ([], st)"
| "executeInstructions c e (i # rest) st =
     (case executeInstruction c e i (calls st) of
        (r, cs') \<Rightarrow>
          (case executeInstructions c e rest (countExecution r (st\<lparr>calls := cs'\<rparr>)) of
             (rs, st') \<Rightarrow> (r # rs, st')))"

section \<open>The trading cycle\<close>

definition resetDailyCountIfNeeded :: "Collaborators \<Rightarrow> ServiceState \<Rightarrow> ServiceState" where
  "resetDailyCountIfNeeded e st =
     (if toDateString e (calls st) \<noteq> lastResetDate st
      then st\<lparr>dailyTradeCount := 0, lastResetDate := toDateString e (calls st)\<rparr>
      else st)"

definition createSuccessfulCycleResult ::
  "AITradingConfig \<Rightarrow> Collaborators \<Rightarrow> string \<Rightarrow> string \<Rightarrow> TradingInstruction list \<Rightarrow>
     ExecutionResult list \<Rightarrow> int \<Rightarrow> Call list \<Rightarrow> TradingCycleResult" where
  "createSuccessfulCycleResult c e cid content ins results startTime cs =
     \<lparr>timestamp_c = dateNow e cs, aiProvider = aiProviderName c, prompt = [],
      aiResponse = content, instructions_c = ins, executionResults = results,
      success_c = True, error_c = None, cycleId = cid, duration = dateNow e cs - startTime\<rparr>"

definition createFailedCycleResult ::
  "AITradingConfig \<Rightarrow> Collaborators \<Rightarrow> string \<Rightarrow> string \<Rightarrow> int \<Rightarrow> Call list \<Rightarrow>
     TradingCycleResult" where
  "createFailedCycleResult c e cid m startTime cs =
     \<lparr>timestamp_c = dateNow e cs, aiProvider = aiProviderName c, prompt = [],
      aiResponse = [], instructions_c = [], executionResults = [],
      success_c = False, error_c = Some m, cycleId = cid, duration = dateNow e cs - startTime\<rparr>"

definition createSkippedCycleResult ::
  "AITradingConfig \<Rightarrow> Collaborators \<Rightarrow> string \<Rightarrow> string \<Rightarrow> int \<Rightarrow> Call list \<Rightarrow>
     TradingCycleResult" where
  "createSkippedCycleResult c e cid rsn startTime cs =
     \<lparr>timestamp_c = dateNow e cs, aiProvider = aiProviderName c, prompt = [],
      aiResponse = ''Cycle skipped: '' @ rsn, instructions_c = [], executionResults = [],
      success_c = True, error_c = None, cycleId = cid, duration = dateNow e cs - startTime\<rparr>"

definition executeFiltered ::
  "AITradingConfig \<Rightarrow> Collaborators \<Rightarrow> string \<Rightarrow> int \<Rightarrow> string \<Rightarrow> TradingInstruction list \<Rightarrow>
     ServiceState \<Rightarrow> TradingCycleResult \<times> ServiceState" where
  \<comment> \<open>steps 6 and 7 of \<open>executeAITradingCycle\<close>: the execution of the filtered
      instructions unless in dry-run mode, and the record of the cycle\<close>
  "executeFiltered c e cid startTime content filtered st =
     (case (if \<not> dryRun c \<and> filtered \<noteq> []
            then executeInstructions c e filtered st
            else ([], st)) of
        (results, st') \<Rightarrow>
          (createSuccessfulCycleResult c e cid content filtered results startTime
             (calls st'),
           st'\<lparr>currentCycle := currentCycle st' + 1\<rparr>))"

definition runDecision ::
  "AITradingConfig \<Rightarrow> Collaborators \<Rightarrow> string \<Rightarrow> int \<Rightarrow> string \<Rightarrow> ServiceState \<Rightarrow>
     TradingCycleResult \<times> ServiceState" where
  \<comment> \<open>steps 4 to 7 of \<open>executeAITradingCycle\<close>, from the model's response on\<close>
  "runDecision c e cid startTime content st =
     executeFiltered c e cid startTime content
       (filterInstructions c (parseAIResponse content (dateNow e (calls st)))) st"

definition executeAITradingCycle ::
  "AITradingConfig \<Rightarrow> Collaborators \<Rightarrow> ServiceState \<Rightarrow> TradingCycleResult \<times> ServiceState" where
  \<comment> \<open>a failure of the gathering or of the model's call is thrown to the \<open>catch\<close> of the
      cycle, which builds the failed result; the state changes made before stay\<close>
  "executeAITradingCycle c e st =
     (case resetDailyCountIfNeeded e st of st1 \<Rightarrow>
        if maxDailyTrades c \<le> int (dailyTradeCount st1) then
          (createSkippedCycleResult c e (newCycleId e (calls st)) ''Daily trade limit reached''
             (dateNow e (calls st)) (calls st1),
           st1)
        else
          (case gatherMarketData c e (calls st1) of
             (Inl m, cs) \<Rightarrow>
               (createFailedCycleResult c e (newCycleId e (calls st)) m (dateNow e (calls st)) cs,
                st1\<lparr>calls := cs\<rparr>)
           | (Inr md, cs) \<Rightarrow>
               (case requestDecision e cs (renderPrompt c md (dailyTradeCount st1)) of
                  Inl m \<Rightarrow>
                    (createFailedCycleResult c e (newCycleId e (calls st)) m
                       (dateNow e (calls st))
                       (cs @ [RequestDecision (renderPrompt c md (dailyTradeCount st1))]),
                     st1\<lparr>calls := cs @ [RequestDecision (renderPrompt c md (dailyTradeCount st1))]\<rparr>)
                | Inr content \<Rightarrow>
                    runDecision c e (newCycleId e (calls st)) (dateNow e (calls st)) content
                      (st1\<lparr>calls := cs @ [RequestDecision (renderPrompt c md (dailyTradeCount st1))]\<rparr>))))"

section \<open>Vocabulary of the properties, and concrete inputs\<close>

fun keyAppears :: "string \<Rightarrow> string list \<Rightarrow> bool" where
  \<comment> \<open>the key \<open>k\<close> appears in a block: some line that the loop of \<open>parseLines\<close> reaches
      has \<open>k\<close> as its lower-case, trimmed key\<close>
  "keyAppears k [] = False"
| "keyAppears k (l # ls) =
     (if includesStr ''---'' l then False
      else (case splitOn CHR '':'' l of
              key # v # vs \<Rightarrow> trim (toLowerCase key) = k \<or> keyAppears k ls
            | _ \<Rightarrow> keyAppears k ls))"

definition fallbackHold :: "int \<Rightarrow> TradingInstruction" where
  \<comment> \<open>the HOLD instruction of \<open>parseFallbackResponse\<close>\<close>
  "fallbackHold ts =
     holdInstruction ''ALL'' ''AI recommends holding based on current market conditions'' 50 LOW ts"

definition restamp :: "int \<Rightarrow> TradingInstruction \<Rightarrow> TradingInstruction" where
  "restamp t i = i\<lparr>timestamp := t\<rparr>"

definition withTimestamp :: "int \<Rightarrow> ParseResult \<Rightarrow> ParseResult" where
  \<comment> \<open>the same parse result with every instruction stamped \<open>t\<close>\<close>
  "withTimestamp t res =
     res\<lparr>instructions := map (restamp t) (instructions res),
         validInstructions := map (restamp t) (validInstructions res),
         invalidInstructions := map (\<lambda>p. (restamp t (fst p), snd p)) (invalidInstructions res)\<rparr>"

definition buyBTC :: "int \<Rightarrow> TradingInstruction" where
  "buyBTC ts =
     (emptyInstruction ts)\<lparr>action := Some BUY, symbol := Some ''BTCUSDT'', quantity := Some 1\<rparr>"

definition fallbackBuy :: TradingInstruction where
  "fallbackBuy =
     (emptyInstruction 0)\<lparr>action := Some BUY, symbol := Some ''BTCUSDT'',
                          reason := Some ''Parsed from unstructured AI response'',
                          confidence := Some 30, priority := Some LOW\<rparr>"

definition twoTrades :: string where
  "twoTrades = ''TRADE_DECISION:\<newline>Action: BUY\<newline>Symbol: BTC\<newline>Quantity: 1\<newline>Confidence: 80\<newline>---\<newline>TRADE_DECISION:\<newline>Action: SELL\<newline>Symbol: ETH\<newline>Quantity: 2\<newline>Confidence: 90''"

definition buyOne :: TradingInstruction where
  "buyOne = (emptyInstruction 0)\<lparr>action := Some BUY, symbol := Some ''BTCUSDT'',
                                  quantity := Some 1, confidence := Some 80\<rparr>"

definition sellTwo :: TradingInstruction where
  "sellTwo = (emptyInstruction 0)\<lparr>action := Some SELL, symbol := Some ''ETHUSDT'',
                                   quantity := Some 2, confidence := Some 90\<rparr>"

definition boughtOne :: ExecutionResult where
  "boughtOne = \<lparr>success = True, instruction = buyOne, binanceOrderId = Some 1,
                 executedPrice = Some 50000, executedQuantity = Some 1, error = None,
                 timestamp_e = 1\<rparr>"

definition demoAccount :: AccountInfo where
  "demoAccount =
     \<lparr>availableBalance = ''1000'', totalWalletBalance = ''1000'', totalUnrealizedProfit = ''0'',
      totalMarginBalance = ''1000'', totalPositionInitialMargin = ''0''\<rparr>"

definition demoCollaborators :: "bool \<Rightarrow> bool \<Rightarrow> bool \<Rightarrow> string \<Rightarrow> Collaborators" where
  \<comment> \<open>collaborators for the concrete runs: the three flags say whether the account, the
      positions and the tickers can be read; candles never can; the model answers
      \<open>content\<close>; the risk manager rejects once an instruction has been executed\<close>
  "demoCollaborators accountOk positionsOk tickerOk content =
     \<lparr>getAccountInfo = (\<lambda>cs. if accountOk then Inr demoAccount else Inl ''account unavailable''),
      getPositions = (\<lambda>cs. if positionsOk then Inr [] else Inl ''positions unavailable''),
      get24hrTicker = (\<lambda>cs sy.
         if tickerOk
         then Inr \<lparr>lastPrice = ''50000'', priceChangePercent = ''-1.5'', volume = ''10''\<rparr>
         else Inl ''ticker unavailable''),
      getKlines = (\<lambda>cs sy. Inl ''klines unavailable''),
      requestDecision = (\<lambda>cs p. Inr content),
      assessRisk = (\<lambda>cs q.
         Inr \<lparr>canExecute =
                 list_all (\<lambda>c. case c of ExecuteInstruction i \<Rightarrow> False | _ \<Rightarrow> True) cs,
               reasons = [''exposure limit reached'']\<rparr>),
      executorRun = (\<lambda>cs i.
         Inr \<lparr>success = True, instruction = i, binanceOrderId = Some 1,
               executedPrice = Some 50000, executedQuantity = quantity i, error = None,
               timestamp_e = int (length cs)\<rparr>),
      sendMessage = (\<lambda>cs m. Inr ()),
      dateNow = (\<lambda>cs. int (length cs)),
      toDateString = (\<lambda>cs. ''Mon Nov 02 2026''),
      newCycleId = (\<lambda>cs. ''cycle_0_abc'')\<rparr>"

definition demoConfig :: AITradingConfig where
  "demoConfig =
     \<lparr>aiProviderName = ''DeepSeek'', renderPrompt = (\<lambda>md n. ''prompt''),
      formatTradeMessage = (\<lambda>i r. ''Trade Executed''),
      tradingPairs = [''BTCUSDT'', ''ETHUSDT''], maxPositions = 5, maxDailyTrades = 3,
      maxPortfolioExposure = 50, maxPositionSize = 1000, minConfidenceThreshold = 60,
      technicalIndicatorsEnabled = True, sentimentAnalysisEnabled = False,
      telegramEnabled = False, dryRun = False, intervalSeconds = 60\<rparr>"

definition demoState :: "nat \<Rightarrow> ServiceState" where
  "demoState n =
     \<lparr>isRunning = True, currentCycle = 0, totalExecutedTrades = n, dailyTradeCount = n,
      lastResetDate = ''Mon Nov 02 2026'', calls = []\<rparr>"

definition closeLeveraged :: TradingInstruction where
  "closeLeveraged =
     (emptyInstruction 0)\<lparr>action := Some CLOSE, symbol := Some ''BTCUSDT'',
                          leverage := Some 100, confidence := Some 80\<rparr>"

definition overLeveraged :: TradingInstruction where
  "overLeveraged =
     (emptyInstruction 0)\<lparr>action := Some BUY, symbol := Some ''BTCUSDT'', quantity := Some 1,
                          leverage := Some 100, confidence := Some 150\<rparr>"

section \<open>Properties of the decoder\<close>

subsection \<open>Shared lemmas\<close>

lemma validateAll_valid:
  "fst (validateAll ins) = filter (\<lambda>i. isValid (validateInstruction i)) ins"
  by (induction ins) (simp_all add: addValidated_def)

lemma validateAll_invalid:
  "snd (validateAll ins) =
     map (\<lambda>i. (i, errors (validateInstruction i)))
         (filter (\<lambda>i. \<not> isValid (validateInstruction i)) ins)"
  by (induction ins) (simp_all add: addValidated_def)

lemma parseAIResponse_blocks:
  assumes "extractTradeBlocks (cleanResponse r) \<noteq> []"
  shows "parseAIResponse r ts =
     \<lparr>instructions = parseBlocks (extractTradeBlocks (cleanResponse r)) ts,
      rawResponse = r,
      parseErrors = [],
      validInstructions =
        filter (\<lambda>i. isValid (validateInstruction i))
               (parseBlocks (extractTradeBlocks (cleanResponse r)) ts),
      invalidInstructions =
        map (\<lambda>i. (i, errors (validateInstruction i)))
            (filter (\<lambda>i. \<not> isValid (validateInstruction i))
                    (parseBlocks (extractTradeBlocks (cleanResponse r)) ts))\<rparr>"
  using assms
  by (simp add: parseAIResponse_def validatedResult_def decodeCleaned_def decodeBlocks_def
                makeParseResult_def validateAll_valid validateAll_invalid)

lemma parseAIResponse_fallback:
  assumes "extractTradeBlocks (cleanResponse r) = []"
  shows "parseAIResponse r ts =
     \<lparr>instructions =
        (case parseFallbackResponse (cleanResponse r) ts of Some i \<Rightarrow> [i] | None \<Rightarrow> []),
      rawResponse = r,
      parseErrors = [''No TRADE_DECISION blocks found in AI response''],
      validInstructions =
        filter (\<lambda>i. isValid (validateInstruction i))
               (case parseFallbackResponse (cleanResponse r) ts of Some i \<Rightarrow> [i] | None \<Rightarrow> []),
      invalidInstructions =
        map (\<lambda>i. (i, errors (validateInstruction i)))
            (filter (\<lambda>i. \<not> isValid (validateInstruction i))
                    (case parseFallbackResponse (cleanResponse r) ts of
                       Some i \<Rightarrow> [i] | None \<Rightarrow> []))\<rparr>"
  using assms
  by (simp add: parseAIResponse_def validatedResult_def decodeCleaned_def decodeBlocks_def
                makeParseResult_def validateAll_valid validateAll_invalid)

lemma validate_fallbackHold:
  "validateInstruction (fallbackHold ts) =
     \<lparr>isValid = False, errors = [''Invalid trading symbol: ALL''], warnings = []\<rparr>"
  unfolding fallbackHold_def by code_simp

lemma parseFallback_hold:
  assumes "parseFallbackResponse t ts = Some i" and "action i = Some HOLD"
  shows "i = fallbackHold ts"
  using assms
  by (auto simp: parseFallbackResponse_def fallbackFrom_def fallbackHold_def
           split: if_splits option.splits)

lemma confidence_setField:
  "confidence (setField k v ins) =
     (if k = ''confidence'' then Some (orZero (parseNumber v)) else confidence ins)"
  by (simp add: setField_def)

lemma confidence_parseLines:
  "confidence (parseLines ls ins) = None \<longleftrightarrow>
     confidence ins = None \<and> \<not> keyAppears ''confidence'' ls"
proof (induction ls arbitrary: ins)
  case Nil
  show ?case by simp
next
  case (Cons l ls)
  show ?case
  proof (cases "includesStr ''---'' l")
    case True
    then show ?thesis by simp
  next
    case False
    show ?thesis
    proof (cases "splitOn CHR '':'' l")
      case Nil
      with False show ?thesis by (simp add: Cons.IH)
    next
      case (Cons k rest)
      note outer = this
      show ?thesis
      proof (cases rest)
        case Nil
        with False outer show ?thesis by (simp add: Cons.IH)
      next
        case (Cons v vs)
        with False outer show ?thesis
          by (auto simp add: Cons.IH confidence_setField)
      qed
    qed
  qed
qed

subsection \<open>HOLD blocks\<close>

text \<open>
  Claim C3. A recognized block whose parsed action is HOLD should always yield one HOLD
  instruction with a non-empty reason, confidence 50 and priority LOW by default, also for
  a response that consists of \<open>Action: HOLD\<close> alone. The code does not do this: the
  looser pattern recognizes the block and its action is HOLD, but the check of the
  required fields returns \<open>null\<close> for the missing symbol before the HOLD defaults (with
  their own \<open>symbol || 'ALL'\<close>) are reached, so nothing is decoded and nothing is recorded.
\<close>

theorem hold_without_symbol_dropped:
  "parseAIResponse ''Action: HOLD'' ts =
     \<lparr>instructions = [], rawResponse = ''Action: HOLD'', parseErrors = [],
      validInstructions = [], invalidInstructions = []\<rparr>"
  by code_simp

subsection \<open>Range validation\<close>

text \<open>
  Claim C4, as stated: validation reports an error for every decoded instruction, of any
  action, whose leverage is present and outside [1,50]. It fails for a CLOSE block with
  leverage 100: the leverage check sits inside the branch for actions other than HOLD and
  CLOSE, and the decoded instruction is valid.
\<close>

theorem validate_close_leverage_counterexample:
  "parseTradeBlock ''Action: CLOSE\<newline>Symbol: BTC\<newline>Leverage: 100\<newline>Confidence: 80'' 0 =
     Some closeLeveraged \<and>
   leverage closeLeveraged = Some 100 \<and>
   isValid (validateInstruction closeLeveraged) \<and>
   errors (validateInstruction closeLeveraged) = []"
  by code_simp

text \<open>
  Claim C4, amended: for every instruction, validation reports the confidence error
  whenever the confidence is a number outside [0,100]; and for every instruction whose
  action is neither HOLD nor CLOSE it reports the leverage error whenever the leverage is
  present, not zero, and outside [1,50]. In both cases the instruction is invalid.
\<close>

theorem validateInstruction_range_errors:
  "(confidence i = Some c \<and> (c < 0 \<or> 100 < c) \<longrightarrow>
      ''Confidence must be between 0 and 100'' \<in> set (errors (validateInstruction i)) \<and>
      \<not> isValid (validateInstruction i)) \<and>
   (action i \<noteq> Some HOLD \<and> action i \<noteq> Some CLOSE \<and> leverage i = Some l \<and> l \<noteq> 0 \<and>
    (l < 1 \<or> 50 < l) \<longrightarrow>
      ''Leverage must be between 1 and 50'' \<in> set (errors (validateInstruction i)) \<and>
      \<not> isValid (validateInstruction i))"
proof (intro conjI impI)
  assume "confidence i = Some c \<and> (c < 0 \<or> 100 < c)"
  then have "ltNum (confidence i) 0 \<or> gtNum (confidence i) 100"
    by (auto simp: ltNum_def gtNum_def)
  then show "''Confidence must be between 0 and 100'' \<in> set (errors (validateInstruction i))"
    by (simp add: validateInstruction_def validationResult_def validationErrors_def)
  then have "validationErrors i \<noteq> []"
    by (auto simp: validateInstruction_def validationResult_def)
  then show "\<not> isValid (validateInstruction i)"
    by (simp add: validateInstruction_def validationResult_def)
next
  assume "action i \<noteq> Some HOLD \<and> action i \<noteq> Some CLOSE \<and> leverage i = Some l \<and> l \<noteq> 0 \<and>
    (l < 1 \<or> 50 < l)"
  then have "''Leverage must be between 1 and 50'' \<in> set (actionErrors i)"
    by (auto simp: actionErrors_def truthyNum_def ltNum_def gtNum_def)
  then show "''Leverage must be between 1 and 50'' \<in> set (errors (validateInstruction i))"
    by (simp add: validateInstruction_def validationResult_def validationErrors_def)
  then have "validationErrors i \<noteq> []"
    by (auto simp: validateInstruction_def validationResult_def)
  then show "\<not> isValid (validateInstruction i)"
    by (simp add: validateInstruction_def validationResult_def)
qed

theorem validateInstruction_range_errors_witness:
  "confidence overLeveraged = Some 150 \<and> action overLeveraged = Some BUY \<and>
   leverage overLeveraged = Some 100 \<and>
   errors (validateInstruction overLeveraged) =
     [''Leverage must be between 1 and 50'', ''Confidence must be between 0 and 100''] \<and>
   \<not> isValid (validateInstruction overLeveraged)"
proof -
  have e: "confidence overLeveraged = Some 150 \<and> action overLeveraged = Some BUY \<and>
           leverage overLeveraged = Some 100 \<and>
           errors (validateInstruction overLeveraged) =
             [''Leverage must be between 1 and 50'', ''Confidence must be between 0 and 100'']"
    by code_simp
  from validateInstruction_range_errors [of overLeveraged 150 100] e show ?thesis by simp
qed

subsection \<open>The fallback parse\<close>

text \<open>
  Claim C6. A response without the marker \<open>TRADE_DECISION:\<close> that contains "no trade"
  should yield exactly one HOLD instruction and the parse error that no blocks were found.
  The code provides for both (the fallback looks for "no trade" and would return the HOLD,
  and \<open>parseAIResponse\<close> has the parse error), but does not reach them for
  \<open>no trade today\<close>: with the marker absent the looser pattern is tried first, it matches
  \<open>trade today\<close>, so a block is found, the fallback is not run, no error is recorded, and
  the block decodes to nothing.
\<close>

theorem no_trade_today_not_decoded:
  "\<not> includesStr ''TRADE_DECISION:'' ''no trade today'' \<and>
   includesStr ''no trade'' ''no trade today'' \<and>
   extractTradeBlocks (cleanResponse ''no trade today'') = [''trade today''] \<and>
   parseFallbackResponse (cleanResponse ''no trade today'') 0 = Some (fallbackHold 0) \<and>
   parseAIResponse ''no trade today'' 0 =
     \<lparr>instructions = [], rawResponse = ''no trade today'', parseErrors = [],
      validInstructions = [], invalidInstructions = []\<rparr>"
  by code_simp

text \<open>
  Claim C10. Every HOLD instruction that the fallback parse produces carries the symbol
  \<open>ALL\<close>, which is not in the list of supported pairs; validation reports exactly the
  error \<open>Invalid trading symbol: ALL\<close>, and the decoder places the instruction in
  \<open>invalidInstructions\<close> and not in \<open>validInstructions\<close>.
\<close>

theorem fallback_hold_invalid:
  assumes "extractTradeBlocks (cleanResponse r) = []"
    and "parseFallbackResponse (cleanResponse r) ts = Some i"
    and "action i = Some HOLD"
  shows "symbol i = Some ''ALL'' \<and> ''ALL'' \<notin> set validSymbols \<and>
         errors (validateInstruction i) = [''Invalid trading symbol: ALL''] \<and>
         validInstructions (parseAIResponse r ts) = [] \<and>
         invalidInstructions (parseAIResponse r ts) = [(i, [''Invalid trading symbol: ALL''])]"
proof -
  have i: "i = fallbackHold ts"
    using assms(2,3) by (rule parseFallback_hold)
  have s: "symbol i = Some ''ALL''"
    by (simp add: i fallbackHold_def holdInstruction_def)
  have v: "''ALL'' \<notin> set validSymbols"
    by (simp add: validSymbols_def)
  have e: "validateInstruction i =
             \<lparr>isValid = False, errors = [''Invalid trading symbol: ALL''], warnings = []\<rparr>"
    unfolding i by (rule validate_fallbackHold)
  show ?thesis using assms(2) s v e by (simp add: parseAIResponse_fallback [OF assms(1)])
qed

theorem fallback_hold_invalid_witness:
  "extractTradeBlocks (cleanResponse ''please wait'') = [] \<and>
   parseFallbackResponse (cleanResponse ''please wait'') 0 = Some (fallbackHold 0) \<and>
   action (fallbackHold 0) = Some HOLD \<and>
   validInstructions (parseAIResponse ''please wait'' 0) = [] \<and>
   invalidInstructions (parseAIResponse ''please wait'' 0) =
     [(fallbackHold 0, [''Invalid trading symbol: ALL''])]"
proof -
  have a: "extractTradeBlocks (cleanResponse ''please wait'') = []" by code_simp
  have b: "parseFallbackResponse (cleanResponse ''please wait'') 0 = Some (fallbackHold 0)"
    by code_simp
  have c: "action (fallbackHold 0) = Some HOLD"
    by (simp add: fallbackHold_def holdInstruction_def)
  from fallback_hold_invalid [OF a b c] a b c show ?thesis by simp
qed

subsection \<open>Confidence of a decoded block\<close>

lemma confidence_without_key:
  assumes "parseTradeBlock b ts = Some i"
    and "action i \<noteq> Some HOLD"
    and "\<not> keyAppears ''confidence'' (blockLines b)"
  shows "confidence i = None \<and>
         ''Confidence must be between 0 and 100'' \<notin> set (errors (validateInstruction i)) \<and>
         \<not> ltNum (confidence i) threshold"
proof -
  let ?ins = "parseLines (blockLines b) (emptyInstruction ts)"
  have n: "confidence ?ins = None"
    using assms(3) by (simp add: confidence_parseLines emptyInstruction_def)
  have "i = ?ins"
  proof (cases "action ?ins = Some HOLD")
    case True
    with assms(1,2) show ?thesis
      by (auto simp: parseTradeBlock_def finishBlock_def holdInstruction_def
               split: if_splits)
  next
    case False
    with assms(1) show ?thesis
      by (auto simp: parseTradeBlock_def finishBlock_def split: if_splits)
  qed
  with n have c: "confidence i = None"
    by simp
  have "''Confidence must be between 0 and 100'' \<notin> set (errors (validateInstruction i))"
    by (auto simp: validateInstruction_def validationResult_def validationErrors_def
                   actionErrors_def c ltNum_def gtNum_def split: option.splits)
  with c show ?thesis
    by (simp add: ltNum_def)
qed

text \<open>
  Claim C7. A decoded block in which no confidence key appears should carry confidence 0,
  never \<open>undefined\<close>, so that the range validation and the minimum-confidence filter apply
  to it. (A HOLD block has its own default, 50.) The code does not do this for the other
  actions: the default \<open>|| 0\<close> is applied only inside the case of the confidence key, so
  without the key the field, declared \<open>confidence: number\<close>, stays \<open>undefined\<close>. Every
  comparison with \<open>undefined\<close> is false: validation reports neither an error nor the
  warning of a low confidence, and the filter with the threshold 60 lets the instruction
  pass. The lemma above shows this for every such block.
\<close>

theorem missing_confidence_left_undefined:
  "\<not> keyAppears ''confidence'' (blockLines ''Action: BUY\<newline>Symbol: BTC\<newline>Quantity: 1'') \<and>
   parseTradeBlock ''Action: BUY\<newline>Symbol: BTC\<newline>Quantity: 1'' 0 = Some (buyBTC 0) \<and>
   confidence (buyBTC 0) = None \<and>
   validateInstruction (buyBTC 0) =
     \<lparr>isValid = True, errors = [],
      warnings = [''No reason provided for trading decision'',
                  ''No stop loss specified - high risk'',
                  ''No take profit specified - consider setting exit strategy'']\<rparr> \<and>
   minConfidenceThreshold demoConfig = 60 \<and>
   filterInstructions demoConfig
     (parseAIResponse ''TRADE_DECISION:\<newline>Action: BUY\<newline>Symbol: BTC\<newline>Quantity: 1'' 0) =
     [buyBTC 0]"
  by code_simp

subsection \<open>Failure modes of the decoder\<close>

text \<open>
  Claim C2, as stated: decoding never raises, and every failure mode leaves a descriptive
  entry in \<open>parseErrors\<close> or \<open>invalidInstructions\<close>. The second half fails for a block
  without a symbol: \<open>parseTradeBlock\<close> returns \<open>null\<close>, the block is dropped, and the
  result is empty in every field.
\<close>

theorem silent_drop_counterexample:
  "parseAIResponse ''TRADE_DECISION:\<newline>Action: BUY'' 0 =
     \<lparr>instructions = [], rawResponse = ''TRADE_DECISION:\<newline>Action: BUY'', parseErrors = [],
      validInstructions = [], invalidInstructions = []\<rparr>"
  by code_simp

text \<open>
  Claim C2, amended: for every input string decoding returns a parse result (the function
  is total: no operation of the body can throw and every scanning loop terminates) that
  carries the raw response. When no block is found, the parse errors are exactly the error
  about missing blocks, and the instructions are what the fallback returns, one instruction
  or none. When blocks are found, there is no parse error and the instructions are the
  results of the blocks, in order: a block whose lines give an action and a symbol yields
  one instruction; a block whose lines give no action, or an action other than HOLD and no
  symbol, yields no instruction and leaves no entry, neither in \<open>parseErrors\<close> nor in
  \<open>invalidInstructions\<close>. The valid instructions are exactly the decoded instructions that
  pass validation, and the invalid ones exactly those that fail it, each with its list of
  errors, which is not empty.
\<close>

theorem parseAIResponse_failure_modes:
  "rawResponse (parseAIResponse r ts) = r \<and>
   (extractTradeBlocks (cleanResponse r) = [] \<longrightarrow>
      parseErrors (parseAIResponse r ts) = [''No TRADE_DECISION blocks found in AI response''] \<and>
      instructions (parseAIResponse r ts) =
        (case parseFallbackResponse (cleanResponse r) ts of Some j \<Rightarrow> [j] | None \<Rightarrow> [])) \<and>
   (extractTradeBlocks (cleanResponse r) \<noteq> [] \<longrightarrow>
      parseErrors (parseAIResponse r ts) = [] \<and>
      instructions (parseAIResponse r ts) =
        List.map_filter (\<lambda>b. parseTradeBlock b ts) (extractTradeBlocks (cleanResponse r))) \<and>
   validInstructions (parseAIResponse r ts) =
     filter (\<lambda>j. isValid (validateInstruction j)) (instructions (parseAIResponse r ts)) \<and>
   invalidInstructions (parseAIResponse r ts) =
     map (\<lambda>j. (j, errors (validateInstruction j)))
         (filter (\<lambda>j. \<not> isValid (validateInstruction j)) (instructions (parseAIResponse r ts))) \<and>
   (\<not> isValid (validateInstruction i) \<longrightarrow> errors (validateInstruction i) \<noteq> []) \<and>
   (action (parseLines (blockLines b) (emptyInstruction ts)) = None \<or>
    action (parseLines (blockLines b) (emptyInstruction ts)) \<noteq> Some HOLD \<and>
    \<not> truthyStr (symbol (parseLines (blockLines b) (emptyInstruction ts))) \<longrightarrow>
      parseTradeBlock b ts = None) \<and>
   (action (parseLines (blockLines b) (emptyInstruction ts)) \<noteq> None \<and>
    truthyStr (symbol (parseLines (blockLines b) (emptyInstruction ts))) \<longrightarrow>
      (\<exists>j. parseTradeBlock b ts = Some j))"
proof -
  have err: "\<not> isValid (validateInstruction i) \<longrightarrow> errors (validateInstruction i) \<noteq> []"
    by (simp add: validateInstruction_def validationResult_def)
  have dropped:
    "action (parseLines (blockLines b) (emptyInstruction ts)) = None \<or>
     action (parseLines (blockLines b) (emptyInstruction ts)) \<noteq> Some HOLD \<and>
     \<not> truthyStr (symbol (parseLines (blockLines b) (emptyInstruction ts))) \<longrightarrow>
       parseTradeBlock b ts = None"
    by (auto simp: parseTradeBlock_def finishBlock_def)
  have kept:
    "action (parseLines (blockLines b) (emptyInstruction ts)) \<noteq> None \<and>
     truthyStr (symbol (parseLines (blockLines b) (emptyInstruction ts))) \<longrightarrow>
       (\<exists>j. parseTradeBlock b ts = Some j)"
    by (auto simp: parseTradeBlock_def finishBlock_def)
  have res: "rawResponse (parseAIResponse r ts) = r \<and>
     (extractTradeBlocks (cleanResponse r) = [] \<longrightarrow>
        parseErrors (parseAIResponse r ts) =
          [''No TRADE_DECISION blocks found in AI response''] \<and>
        instructions (parseAIResponse r ts) =
          (case parseFallbackResponse (cleanResponse r) ts of Some j \<Rightarrow> [j] | None \<Rightarrow> [])) \<and>
     (extractTradeBlocks (cleanResponse r) \<noteq> [] \<longrightarrow>
        parseErrors (parseAIResponse r ts) = [] \<and>
        instructions (parseAIResponse r ts) =
          List.map_filter (\<lambda>b. parseTradeBlock b ts) (extractTradeBlocks (cleanResponse r))) \<and>
     validInstructions (parseAIResponse r ts) =
       filter (\<lambda>j. isValid (validateInstruction j)) (instructions (parseAIResponse r ts)) \<and>
     invalidInstructions (parseAIResponse r ts) =
       map (\<lambda>j. (j, errors (validateInstruction j)))
           (filter (\<lambda>j. \<not> isValid (validateInstruction j))
                   (instructions (parseAIResponse r ts)))"
  proof (cases "extractTradeBlocks (cleanResponse r) = []")
    case True
    show ?thesis
      by (simp add: parseAIResponse_fallback [OF True] True)
  next
    case False
    show ?thesis
      by (simp add: parseAIResponse_blocks [OF False] False parseBlocks_def)
  qed
  from res err dropped kept show ?thesis
    by blast
qed

theorem parseAIResponse_failure_modes_witness:
  "extractTradeBlocks (cleanResponse ''I would buy BTCUSDT now'') = [] \<and>
   parseErrors (parseAIResponse ''I would buy BTCUSDT now'' 0) =
     [''No TRADE_DECISION blocks found in AI response''] \<and>
   instructions (parseAIResponse ''I would buy BTCUSDT now'' 0) = [fallbackBuy] \<and>
   validInstructions (parseAIResponse ''I would buy BTCUSDT now'' 0) = [] \<and>
   invalidInstructions (parseAIResponse ''I would buy BTCUSDT now'' 0) =
     [(fallbackBuy, [''Either quantity or price must be specified for trading actions''])] \<and>
   extractTradeBlocks (cleanResponse ''TRADE_DECISION:\<newline>Action: BUY'') = [''Action: BUY''] \<and>
   parseTradeBlock ''Action: BUY'' 0 = None \<and>
   parseErrors (parseAIResponse ''TRADE_DECISION:\<newline>Action: BUY'' 0) = [] \<and>
   instructions (parseAIResponse ''TRADE_DECISION:\<newline>Action: BUY'' 0) = [] \<and>
   invalidInstructions (parseAIResponse ''TRADE_DECISION:\<newline>Action: BUY'' 0) = [] \<and>
   parseTradeBlock ''Action: BUY\<newline>Symbol: BTC\<newline>Quantity: 1'' 0 \<noteq> None"
proof -
  let ?A = "''I would buy BTCUSDT now''"
  let ?B = "''TRADE_DECISION:\<newline>Action: BUY''"
  have a: "extractTradeBlocks (cleanResponse ?A) = []"
    by code_simp
  have f: "parseFallbackResponse (cleanResponse ?A) 0 = Some fallbackBuy"
    by code_simp
  have c: "validateInstruction fallbackBuy =
             \<lparr>isValid = False,
              errors = [''Either quantity or price must be specified for trading actions''],
              warnings = [''No stop loss specified - high risk'',
                          ''No take profit specified - consider setting exit strategy'',
                          ''Low confidence level - consider skipping this trade'']\<rparr>"
    by code_simp
  have d: "extractTradeBlocks (cleanResponse ?B) = [''Action: BUY'']"
    by code_simp
  have p1: "action (parseLines (blockLines ''Action: BUY'') (emptyInstruction 0)) = Some BUY \<and>
            symbol (parseLines (blockLines ''Action: BUY'') (emptyInstruction 0)) = None"
    by code_simp
  have p2: "action (parseLines (blockLines ''Action: BUY\<newline>Symbol: BTC\<newline>Quantity: 1'')
                      (emptyInstruction 0)) = Some BUY \<and>
            symbol (parseLines (blockLines ''Action: BUY\<newline>Symbol: BTC\<newline>Quantity: 1'')
                      (emptyInstruction 0)) = Some ''BTCUSDT''"
    by code_simp
  note wA = parseAIResponse_failure_modes
              [where r = ?A and ts = 0 and i = fallbackBuy and b = "''Action: BUY''"]
  note wB = parseAIResponse_failure_modes
              [where r = ?B and ts = 0 and i = fallbackBuy
                 and b = "''Action: BUY\<newline>Symbol: BTC\<newline>Quantity: 1''"]
  from wA p1 have n: "parseTradeBlock ''Action: BUY'' 0 = None"
    by (simp add: truthyStr_def)
  from wB p2 have k: "parseTradeBlock ''Action: BUY\<newline>Symbol: BTC\<newline>Quantity: 1'' 0 \<noteq> None"
    by (auto simp: truthyStr_def)
  from wA a f have iA: "parseErrors (parseAIResponse ?A 0) =
                          [''No TRADE_DECISION blocks found in AI response''] \<and>
                        instructions (parseAIResponse ?A 0) = [fallbackBuy]"
    by simp
  from wA iA c have vA: "validInstructions (parseAIResponse ?A 0) = [] \<and>
      invalidInstructions (parseAIResponse ?A 0) =
        [(fallbackBuy, [''Either quantity or price must be specified for trading actions''])]"
    by simp
  from wB d n have iB: "parseErrors (parseAIResponse ?B 0) = [] \<and>
                        instructions (parseAIResponse ?B 0) = []"
    by (simp add: List.map_filter_simps)
  from wB iB have vB: "invalidInstructions (parseAIResponse ?B 0) = []"
    by simp
  from a d n k iA vA iB vB show ?thesis
    by simp
qed

subsection \<open>Decoding twice\<close>

lemma setField_restamp: "setField k v (restamp t i) = restamp t (setField k v i)"
  by (simp add: setField_def restamp_def)

lemma parseLines_restamp: "parseLines ls (restamp t i) = restamp t (parseLines ls i)"
proof (induction ls arbitrary: i)
  case Nil
  show ?case by simp
next
  case (Cons l ls)
  show ?case
    by (simp add: Cons.IH setField_restamp split: list.splits)
qed

lemma holdInstruction_restamp:
  "holdInstruction s r c p t2 = restamp t2 (holdInstruction s r c p t1)"
  by (simp add: holdInstruction_def emptyInstruction_def restamp_def)

lemma restamp_fields:
  "action (restamp t i) = action i" "symbol (restamp t i) = symbol i"
  "reason (restamp t i) = reason i" "confidence (restamp t i) = confidence i"
  "priority (restamp t i) = priority i"
  by (simp_all add: restamp_def)

lemma parseTradeBlock_restamp:
  "parseTradeBlock b t2 = map_option (restamp t2) (parseTradeBlock b t1)"
proof -
  have "emptyInstruction t2 = restamp t2 (emptyInstruction t1)"
    by (simp add: emptyInstruction_def restamp_def)
  then have e: "parseLines (blockLines b) (emptyInstruction t2) =
                restamp t2 (parseLines (blockLines b) (emptyInstruction t1))"
    by (simp add: parseLines_restamp)
  show ?thesis
    unfolding parseTradeBlock_def e
    by (simp add: finishBlock_def restamp_fields holdInstruction_restamp [of _ _ _ _ t2 t1])
qed

lemma parseBlocks_restamp: "parseBlocks bs t2 = map (restamp t2) (parseBlocks bs t1)"
  by (induction bs)
     (simp_all add: parseBlocks_def List.map_filter_simps parseTradeBlock_restamp [of _ t2 t1]
                split: option.splits)

lemma parseFallback_restamp:
  "parseFallbackResponse r t2 = map_option (restamp t2) (parseFallbackResponse r t1)"
  by (simp add: parseFallbackResponse_def fallbackFrom_def
                holdInstruction_restamp [of _ _ _ _ t2 t1]
                emptyInstruction_def restamp_def split: option.splits)

lemma validate_restamp: "validateInstruction (restamp t i) = validateInstruction i"
  by (simp add: validateInstruction_def validationErrors_def validationWarnings_def
                actionErrors_def actionWarnings_def riskRewardWarnings_def restamp_def)

lemma partition_restamp:
  "filter (\<lambda>i. isValid (validateInstruction i)) (map (restamp t) xs) =
     map (restamp t) (filter (\<lambda>i. isValid (validateInstruction i)) xs)"
  "map (\<lambda>i. (i, errors (validateInstruction i)))
       (filter (\<lambda>i. \<not> isValid (validateInstruction i)) (map (restamp t) xs)) =
     map (\<lambda>p. (restamp t (fst p), snd p))
       (map (\<lambda>i. (i, errors (validateInstruction i)))
          (filter (\<lambda>i. \<not> isValid (validateInstruction i)) xs))"
  by (induction xs) (simp_all add: validate_restamp)

text \<open>
  Claim C9, as stated: decoding a normalized text twice yields identical parse results. It
  fails when the clock advances between the two decodings: \<open>parseAIResponse\<close> reads
  \<open>Date.now()\<close> and stamps every instruction with it.
\<close>

theorem decode_twice_counterexample:
  "cleanResponse ''TRADE_DECISION:\<newline>Action: BUY\<newline>Symbol: BTC\<newline>Quantity: 1'' =
     ''TRADE_DECISION:\<newline>Action: BUY\<newline>Symbol: BTC\<newline>Quantity: 1'' \<and>
   instructions
     (parseAIResponse ''TRADE_DECISION:\<newline>Action: BUY\<newline>Symbol: BTC\<newline>Quantity: 1'' 1) =
     [buyBTC 1] \<and>
   instructions
     (parseAIResponse ''TRADE_DECISION:\<newline>Action: BUY\<newline>Symbol: BTC\<newline>Quantity: 1'' 2) =
     [buyBTC 2] \<and>
   parseAIResponse ''TRADE_DECISION:\<newline>Action: BUY\<newline>Symbol: BTC\<newline>Quantity: 1'' 1 \<noteq>
   parseAIResponse ''TRADE_DECISION:\<newline>Action: BUY\<newline>Symbol: BTC\<newline>Quantity: 1'' 2"
proof -
  have a: "cleanResponse ''TRADE_DECISION:\<newline>Action: BUY\<newline>Symbol: BTC\<newline>Quantity: 1'' =
             ''TRADE_DECISION:\<newline>Action: BUY\<newline>Symbol: BTC\<newline>Quantity: 1''"
    by code_simp
  have b: "instructions
             (parseAIResponse ''TRADE_DECISION:\<newline>Action: BUY\<newline>Symbol: BTC\<newline>Quantity: 1'' ts) =
             [buyBTC ts]" for ts
    by code_simp
  have "buyBTC 1 \<noteq> buyBTC 2"
    by (simp add: buyBTC_def emptyInstruction_def)
  with b [of 1] b [of 2] have
    "parseAIResponse ''TRADE_DECISION:\<newline>Action: BUY\<newline>Symbol: BTC\<newline>Quantity: 1'' 1 \<noteq>
     parseAIResponse ''TRADE_DECISION:\<newline>Action: BUY\<newline>Symbol: BTC\<newline>Quantity: 1'' 2"
    by auto
  with a b show ?thesis by simp
qed

text \<open>
  Claim C9, amended: for every text that normalization leaves unchanged, two decodings
  yield parse results that are identical up to the timestamps of the instructions: the
  second result is the first with every instruction stamped with the second clock value.
  In particular the two results are identical when both decodings read the same clock
  value.
\<close>

theorem decode_twice_up_to_timestamp:
  assumes "cleanResponse r = r"
  shows "parseAIResponse r t2 = withTimestamp t2 (parseAIResponse r t1)"
proof (cases "extractTradeBlocks (cleanResponse r) = []")
  case True
  show ?thesis
    by (cases "parseFallbackResponse (cleanResponse r) t1")
       (simp_all add: parseAIResponse_fallback [OF True] withTimestamp_def validate_restamp
                      parseFallback_restamp [of _ t2 t1])
next
  case False
  show ?thesis
    by (simp add: parseAIResponse_blocks [OF False] withTimestamp_def partition_restamp
                  parseBlocks_restamp [of _ t2 t1])
qed

theorem decode_twice_up_to_timestamp_witness:
  "cleanResponse ''TRADE_DECISION:\<newline>Action: BUY\<newline>Symbol: BTC\<newline>Quantity: 1'' =
     ''TRADE_DECISION:\<newline>Action: BUY\<newline>Symbol: BTC\<newline>Quantity: 1'' \<and>
   parseAIResponse ''TRADE_DECISION:\<newline>Action: BUY\<newline>Symbol: BTC\<newline>Quantity: 1'' 2 =
     withTimestamp 2
       (parseAIResponse ''TRADE_DECISION:\<newline>Action: BUY\<newline>Symbol: BTC\<newline>Quantity: 1'' 1)"
proof -
  have a: "cleanResponse ''TRADE_DECISION:\<newline>Action: BUY\<newline>Symbol: BTC\<newline>Quantity: 1'' =
             ''TRADE_DECISION:\<newline>Action: BUY\<newline>Symbol: BTC\<newline>Quantity: 1''"
    by code_simp
  from decode_twice_up_to_timestamp [OF a, of 2 1] a show ?thesis by simp
qed


section \<open>Properties of the orchestrator\<close>

subsection \<open>Shared lemmas\<close>

lemma executeInstructions_append:
  "executeInstructions c e (xs @ ys) st =
     (case executeInstructions c e xs st of
        (rs, st1) \<Rightarrow> (case executeInstructions c e ys st1 of (rs', st2) \<Rightarrow> (rs @ rs', st2)))"
  by (induction xs arbitrary: st) (simp_all add: case_prod_unfold)

lemma executeInstructions_length:
  "length (fst (executeInstructions c e xs st)) = length xs"
  by (induction xs arbitrary: st) (simp_all add: case_prod_unfold)

lemma executeInstruction_rejected:
  assumes "assessRisk e cs (riskQuery y) = Inr ra" and "\<not> canExecute ra"
  shows "executeInstruction c e y cs =
           (failedExecution y (''Risk check failed: '' @ joinStrings '', '' (reasons ra))
              (dateNow e (cs @ [AssessRisk (riskQuery y)])),
            cs @ [AssessRisk (riskQuery y)])"
  using assms by (simp add: executeInstruction_def)

lemma cycle_runs_decision:
  assumes "\<not> maxDailyTrades c \<le> int (dailyTradeCount (resetDailyCountIfNeeded e st))"
    and "gatherMarketData c e (calls (resetDailyCountIfNeeded e st)) = (Inr md, cs)"
    and "requestDecision e cs
           (renderPrompt c md (dailyTradeCount (resetDailyCountIfNeeded e st))) = Inr content"
  shows "executeAITradingCycle c e st =
           runDecision c e (newCycleId e (calls st)) (dateNow e (calls st)) content
             ((resetDailyCountIfNeeded e st)
                \<lparr>calls := cs @ [RequestDecision
                                  (renderPrompt c md
                                     (dailyTradeCount (resetDailyCountIfNeeded e st)))]\<rparr>)"
  using assms by (simp add: executeAITradingCycle_def)


subsection \<open>The daily cap\<close>

text \<open>
  Claim C1. In every state in which, after the reset at a change of day, the day's trade
  count has reached \<open>maxDailyTrades\<close>, one trading cycle returns the skipped result:
  \<open>success\<close> is true, there is no error, \<open>instructions\<close> and \<open>executionResults\<close> are empty;
  and no collaborator is called, neither the model nor any read of the market data: the
  list of calls is unchanged.
\<close>

theorem daily_cap_skips_cycle:
  assumes "maxDailyTrades c \<le> int (dailyTradeCount (resetDailyCountIfNeeded e st))"
  shows "success_c (fst (executeAITradingCycle c e st)) \<and>
         error_c (fst (executeAITradingCycle c e st)) = None \<and>
         instructions_c (fst (executeAITradingCycle c e st)) = [] \<and>
         executionResults (fst (executeAITradingCycle c e st)) = [] \<and>
         aiResponse (fst (executeAITradingCycle c e st)) =
           ''Cycle skipped: Daily trade limit reached'' \<and>
         calls (snd (executeAITradingCycle c e st)) = calls st"
  using assms
  by (simp add: executeAITradingCycle_def createSkippedCycleResult_def)
     (simp add: resetDailyCountIfNeeded_def)

theorem daily_cap_skips_cycle_witness:
  "maxDailyTrades demoConfig \<le>
     int (dailyTradeCount
            (resetDailyCountIfNeeded (demoCollaborators True True True ''no trade'')
               (demoState 3))) \<and>
   success_c (fst (executeAITradingCycle demoConfig
                     (demoCollaborators True True True ''no trade'') (demoState 3))) \<and>
   instructions_c (fst (executeAITradingCycle demoConfig
                     (demoCollaborators True True True ''no trade'') (demoState 3))) = [] \<and>
   executionResults (fst (executeAITradingCycle demoConfig
                     (demoCollaborators True True True ''no trade'') (demoState 3))) = [] \<and>
   calls (snd (executeAITradingCycle demoConfig
                     (demoCollaborators True True True ''no trade'') (demoState 3))) = []"
proof -
  have h: "maxDailyTrades demoConfig \<le>
     int (dailyTradeCount
            (resetDailyCountIfNeeded (demoCollaborators True True True ''no trade'')
               (demoState 3)))"
    by (simp add: demoConfig_def demoCollaborators_def demoState_def resetDailyCountIfNeeded_def)
  have c: "calls (demoState 3) = []"
    by (simp add: demoState_def)
  from daily_cap_skips_cycle [OF h] h c show ?thesis by simp
qed

subsection \<open>A rejected instruction\<close>

text \<open>
  Claim C5. The filtered instructions of a cycle are executed one after the other. If the
  risk manager rejects one of them, in the state that the instructions before it have
  left, then the results of the cycle are: the results of the earlier instructions,
  unchanged (a success stays a success); then a result for the rejected instruction with
  \<open>success\<close> false, carrying that instruction and the reasons; then one result for each
  of the remaining instructions, which are still processed. (\<open>runDecision\<close> is the cycle
  from the model's response on, see \<open>cycle_runs_decision\<close>.)
\<close>

theorem risk_rejection_recorded:
  assumes "\<not> dryRun c"
    and "filterInstructions c (parseAIResponse content (dateNow e (calls st))) = xs @ y # zs"
    and "executeInstructions c e xs st = (rs, st1)"
    and "assessRisk e (calls st1) (riskQuery y) = Inr ra"
    and "\<not> canExecute ra"
  shows "executionResults (fst (runDecision c e cid t0 content st)) =
           rs @ failedExecution y (''Risk check failed: '' @ joinStrings '', '' (reasons ra))
                  (dateNow e (calls st1 @ [AssessRisk (riskQuery y)])) #
           fst (executeInstructions c e zs
                  (st1\<lparr>calls := calls st1 @ [AssessRisk (riskQuery y)]\<rparr>)) \<and>
         length (fst (executeInstructions c e zs
                        (st1\<lparr>calls := calls st1 @ [AssessRisk (riskQuery y)]\<rparr>))) = length zs \<and>
         instruction (failedExecution y
                        (''Risk check failed: '' @ joinStrings '', '' (reasons ra))
                        (dateNow e (calls st1 @ [AssessRisk (riskQuery y)]))) = y \<and>
         \<not> success (failedExecution y
                      (''Risk check failed: '' @ joinStrings '', '' (reasons ra))
                      (dateNow e (calls st1 @ [AssessRisk (riskQuery y)])))"
proof -
  let ?r = "failedExecution y (''Risk check failed: '' @ joinStrings '', '' (reasons ra))
              (dateNow e (calls st1 @ [AssessRisk (riskQuery y)]))"
  let ?st2 = "st1\<lparr>calls := calls st1 @ [AssessRisk (riskQuery y)]\<rparr>"
  have f: "\<not> success ?r" "instruction ?r = y"
    by (simp_all add: failedExecution_def)
  have y: "executeInstructions c e (y # zs) st1 =
             (?r # fst (executeInstructions c e zs ?st2), snd (executeInstructions c e zs ?st2))"
    using executeInstruction_rejected [OF assms(4,5), of c] f
    by (simp add: case_prod_unfold countExecution_def)
  have all: "fst (executeInstructions c e (xs @ y # zs) st) =
               rs @ ?r # fst (executeInstructions c e zs ?st2)"
    by (simp add: executeInstructions_append assms(3) y del: executeInstructions.simps)
  have "executionResults (fst (runDecision c e cid t0 content st)) =
          fst (executeInstructions c e (xs @ y # zs) st)"
    using assms(1,2)
    by (simp add: runDecision_def executeFiltered_def createSuccessfulCycleResult_def
                  case_prod_unfold)
  with all f show ?thesis
    by (simp add: executeInstructions_length)
qed

lemma demo_blocks:
  "extractTradeBlocks (cleanResponse twoTrades) =
     [''Action: BUY\<newline>Symbol: BTC\<newline>Quantity: 1\<newline>Confidence: 80'',
      ''Action: SELL\<newline>Symbol: ETH\<newline>Quantity: 2\<newline>Confidence: 90'']"
  by code_simp

lemma demo_block1:
  "parseTradeBlock ''Action: BUY\<newline>Symbol: BTC\<newline>Quantity: 1\<newline>Confidence: 80'' 0 = Some buyOne"
  by code_simp

lemma demo_block2:
  "parseTradeBlock ''Action: SELL\<newline>Symbol: ETH\<newline>Quantity: 2\<newline>Confidence: 90'' 0 = Some sellTwo"
  by code_simp

lemma demo_valid: "isValid (validateInstruction buyOne)" "isValid (validateInstruction sellTwo)"
  by code_simp+

lemma demo_filter:
  "filterInstructions demoConfig (parseAIResponse twoTrades 0) = [buyOne, sellTwo]"
proof -
  have "parseBlocks (extractTradeBlocks (cleanResponse twoTrades)) 0 = [buyOne, sellTwo]"
    by (simp add: demo_blocks parseBlocks_def List.map_filter_simps demo_block1 demo_block2)
  then have v: "validInstructions (parseAIResponse twoTrades 0) = [buyOne, sellTwo]"
    by (simp add: parseAIResponse_blocks demo_blocks demo_valid)
  have "confidence buyOne = Some 80" "symbol buyOne = Some ''BTCUSDT''" "action buyOne = Some BUY"
       "confidence sellTwo = Some 90" "symbol sellTwo = Some ''ETHUSDT''" "action sellTwo = Some SELL"
    by (simp_all add: buyOne_def sellTwo_def emptyInstruction_def)
  then show ?thesis
    by (simp add: filterInstructions_def v ltNum_def demoConfig_def)
qed

lemma demo_first:
  "executeInstructions demoConfig (demoCollaborators True True True twoTrades) [buyOne]
     (demoState 0) =
     ([boughtOne],
      (demoState 1)\<lparr>calls := [AssessRisk (riskQuery buyOne), ExecuteInstruction buyOne]\<rparr>)"
  by (simp add: executeInstruction_def demoCollaborators_def demoConfig_def demoState_def
                countExecution_def boughtOne_def buyOne_def)

theorem risk_rejection_recorded_witness:
  "executionResults
     (fst (runDecision demoConfig (demoCollaborators True True True twoTrades) ''cycle_0_abc'' 0
             twoTrades (demoState 0))) =
     [boughtOne, failedExecution sellTwo ''Risk check failed: exposure limit reached'' 3] \<and>
   success boughtOne \<and>
   \<not> success (failedExecution sellTwo ''Risk check failed: exposure limit reached'' 3)"
proof -
  let ?e = "demoCollaborators True True True twoTrades"
  let ?st1 = "(demoState 1)\<lparr>calls := [AssessRisk (riskQuery buyOne), ExecuteInstruction buyOne]\<rparr>"
  have a: "\<not> dryRun demoConfig"
    by (simp add: demoConfig_def)
  have b: "filterInstructions demoConfig
             (parseAIResponse twoTrades (dateNow ?e (calls (demoState 0)))) =
             [buyOne] @ sellTwo # []"
    using demo_filter by (simp add: demoCollaborators_def demoState_def)
  have d: "assessRisk ?e (calls ?st1) (riskQuery sellTwo) =
             Inr \<lparr>canExecute = False, reasons = [''exposure limit reached'']\<rparr>"
    by (simp add: demoCollaborators_def)
  have f: "\<not> canExecute \<lparr>canExecute = False, reasons = [''exposure limit reached'']\<rparr>"
    by simp
  have t: "dateNow ?e (calls ?st1 @ [AssessRisk (riskQuery sellTwo)]) = 3"
    by (simp add: demoCollaborators_def)
  have s: "success boughtOne"
    by (simp add: boughtOne_def)
  from risk_rejection_recorded [OF a b demo_first d f, of "''cycle_0_abc''" 0] t s
  show ?thesis by simp
qed

subsection \<open>Failures while gathering\<close>




end
